theory Spec2Isabelle
  imports Main "HOL-Library.Word"
begin

section \<open>The broadcast helper \<open>sendTxWC\<close> (src/providers/wc-keplr.tsx, lines 23-68)\<close>

text \<open>
  \<open>sendTxWC\<close> posts a signed transaction to the REST endpoint of a chain and reads the
  answer. Everything it can raise is a value of \<open>send_error\<close>: a \<open>TypeError\<close> of the
  runtime (a property read on \<open>undefined\<close>, \<open>Buffer.from\<close> on something that is no
  string), the rejection of the HTTP call, and the \<open>Error\<close> the function throws itself.
\<close>

type_synonym byte = "8 word"

datatype send_error =
    TypeError
  | Http_error string
  | Error string

text \<open>One entry of \<open>EmbedChainInfos\<close> (imported from \<open>../config\<close>): only the two
  fields the function reads.\<close>

record chainInfo =
  ci_chainId :: string
  ci_rest :: string

text \<open>\<open>tx: StdTx | Uint8Array\<close>. The amino transaction object is opaque to the function,
  which only forwards it.\<close>

datatype tx = StdTx string | TxBytes "byte list"

text \<open>The request body handed to \<open>restInstance.post\<close>.\<close>

datatype params =
    Proto_params string string
  | Amino_params tx string

text \<open>
  The answer of the endpoint as the function reads it. \<open>tr_code\<close> is \<open>None\<close> when the
  field is absent or \<open>null\<close> (the test is \<open>code != null\<close>); \<open>tr_txhash\<close> is \<open>None\<close>
  when the answer carries no hash. \<open>result.data\<close> is read either directly or through its
  \<open>tx_response\<close> field, which may be missing.
\<close>

record txResponse =
  tr_code :: "int option"
  tr_raw_log :: string
  tr_txhash :: "string option"

record resultData =
  rd_direct :: txResponse
  rd_tx_response :: "txResponse option"

subsection \<open>\<open>Buffer\<close>: base64 text and hexadecimal decoding\<close>

definition b64chars :: string where
  "b64chars = ''ABCDEFGHIJKLMNOPQRSTUVWXYZabcdefghijklmnopqrstuvwxyz0123456789+/''"

fun base64 :: "byte list \<Rightarrow> string" where
  "base64 [] = []"
| "base64 [a] =
     (let n = unat a * 65536
      in [b64chars ! (n div 262144), b64chars ! (n div 4096 mod 64), CHR ''='', CHR ''=''])"
| "base64 [a, b] =
     (let n = unat a * 65536 + unat b * 256
      in [b64chars ! (n div 262144), b64chars ! (n div 4096 mod 64),
          b64chars ! (n div 64 mod 64), CHR ''=''])"
| "base64 (a # b # c # rest) =
     (let n = unat a * 65536 + unat b * 256 + unat c
      in [b64chars ! (n div 262144), b64chars ! (n div 4096 mod 64),
          b64chars ! (n div 64 mod 64), b64chars ! (n mod 64)] @ base64 rest)"

definition hexDigit :: "char \<Rightarrow> nat option" where
  "hexDigit c =
     (let n = of_char c :: nat
      in if 48 \<le> n \<and> n \<le> 57 then Some (n - 48)
         else if 65 \<le> n \<and> n \<le> 70 then Some (n - 55)
         else if 97 \<le> n \<and> n \<le> 102 then Some (n - 87)
         else None)"

text \<open>\<open>Buffer.from(s, "hex")\<close>: one byte per pair of hexadecimal digits; decoding stops
  at the first pair that is not two hexadecimal digits, and a last single character is
  dropped.\<close>

fun hexDecode :: "string \<Rightarrow> byte list" where
  "hexDecode (a # b # cs) =
     (case (hexDigit a, hexDigit b) of
        (Some h, Some l) \<Rightarrow> of_nat (16 * h + l) # hexDecode cs
      | _ \<Rightarrow> [])"
| "hexDecode _ = []"

subsection \<open>The function\<close>

definition isProtoTx :: "tx \<Rightarrow> bool" where
  "isProtoTx t = (case t of TxBytes _ \<Rightarrow> True | StdTx _ \<Rightarrow> False)"

definition protoMode :: "string \<Rightarrow> string" where
  "protoMode m =
     (if m = ''async'' then ''BROADCAST_MODE_ASYNC''
      else if m = ''block'' then ''BROADCAST_MODE_BLOCK''
      else if m = ''sync'' then ''BROADCAST_MODE_SYNC''
      else ''BROADCAST_MODE_UNSPECIFIED'')"

definition mkParams :: "tx \<Rightarrow> string \<Rightarrow> params" where
  "mkParams t m =
     (case t of
        TxBytes bs \<Rightarrow> Proto_params (base64 bs) (protoMode m)
      | StdTx _ \<Rightarrow> Amino_params t m)"

definition postPath :: "tx \<Rightarrow> string" where
  "postPath t = (if isProtoTx t then ''/cosmos/tx/v1beta1/txs'' else ''/txs'')"

text \<open>Lines 61-67: which part of the answer is the transaction response, the test of
  its code, and the decoding of the hash.\<close>

definition readResponse :: "txResponse \<Rightarrow> send_error + byte list" where
  "readResponse r =
     (if tr_code r \<noteq> None \<and> tr_code r \<noteq> Some 0 then Inl (Error (tr_raw_log r))
      else case tr_txhash r of
             None \<Rightarrow> Inl TypeError
           | Some h \<Rightarrow> Inr (hexDecode h))"

definition selectResponse :: "tx \<Rightarrow> resultData \<Rightarrow> txResponse option" where
  "selectResponse t d = (if isProtoTx t then rd_tx_response d else Some (rd_direct d))"

text \<open>
  \<open>sendTxWC\<close>. The chain table \<open>EmbedChainInfos\<close> and the HTTP collaborator
  (\<open>post baseURL path params\<close>, \<open>Inl\<close> when the call rejects) are parameters.
  \<open>find(...)!.rest\<close> on an unknown chain id reads a property of \<open>undefined\<close>.
\<close>

definition sendTxWC ::
  "chainInfo list \<Rightarrow> (string \<Rightarrow> string \<Rightarrow> params \<Rightarrow> send_error + resultData) \<Rightarrow>
   string \<Rightarrow> tx \<Rightarrow> string \<Rightarrow> send_error + byte list" where
  "sendTxWC EmbedChainInfos post chainId t m =
     (case find (\<lambda>chain. ci_chainId chain = chainId) EmbedChainInfos of
        None \<Rightarrow> Inl TypeError
      | Some chain \<Rightarrow>
          (case post (ci_rest chain) (postPath t) (mkParams t m) of
             Inl e \<Rightarrow> Inl e
           | Inr d \<Rightarrow>
               (case selectResponse t d of
                  None \<Rightarrow> Inl TypeError
                | Some r \<Rightarrow> readResponse r)))"

section \<open>The event channel (\<open>eventemitter3\<close>)\<close>

text \<open>
  Both providers talk to their dialogs through one \<open>EventEmitter\<close>. Its listeners are
  kept in the order of registration. \<open>on\<close> adds a listener to a topic; \<open>off\<close>, called
  with a topic alone as both providers do, removes every listener of that topic, whoever
  registered it; \<open>emit\<close> calls the listeners that were registered when it started, in
  order (\<open>listenersOf\<close> is that snapshot).
\<close>

type_synonym topic = string

definition on :: "topic \<Rightarrow> 'h \<Rightarrow> (topic \<times> 'h) list \<Rightarrow> (topic \<times> 'h) list" where
  "on t h ls = ls @ [(t, h)]"

definition off :: "topic \<Rightarrow> (topic \<times> 'h) list \<Rightarrow> (topic \<times> 'h) list" where
  "off t ls = filter (\<lambda>l. fst l \<noteq> t) ls"

definition listenersOf :: "topic \<Rightarrow> (topic \<times> 'h) list \<Rightarrow> 'h list" where
  "listenersOf t ls = map snd (filter (\<lambda>l. fst l = t) ls)"

section \<open>Promises\<close>

text \<open>
  Each call of \<open>getKeplr\<close> or \<open>getWallet\<close> has an identity \<open>rid\<close>, which stands for the
  promise it returns. The model logs every invocation of that promise's \<open>resolve\<close> and
  \<open>reject\<close> in order; a promise that is returned already settled
  (\<open>Promise.resolve(x)\<close>) or that is the promise of a \<open>then\<close> or of an \<open>async\<close>
  function is logged when it settles. \<open>reject()\<close> without an argument carries \<open>None\<close>.
  The promise is pending while the log is empty and takes the state of the first entry.
\<close>

type_synonym rid = nat
type_synonym cid = nat

datatype 'w settle = Resolve 'w | Reject "string option"

datatype 'w promiseState = Pending | Settled "'w settle"

definition promiseState :: "'w settle list \<Rightarrow> 'w promiseState" where
  "promiseState log = (case log of [] \<Rightarrow> Pending | x # _ \<Rightarrow> Settled x)"

section \<open>\<open>GetKeplrProvider\<close> (src/providers/wc-keplr.tsx, lines 79-260)\<close>

datatype connection = Extension | WalletConnect

text \<open>A Keplr object: the one injected into the page, or the wrapper
  \<open>new KeplrWalletConnectV1(connector, ...)\<close> around the connector \<open>cid\<close>.\<close>

datatype keplr = WindowKeplr nat | KeplrWalletConnectV1 cid

text \<open>The listeners \<open>getKeplr\<close> registers, each a closure over the call that made it.\<close>

datatype keplrHandler =
    K_modal_close rid
  | K_select_extension rid
  | K_select_wallet_connect rid
  | K_wc_qr_modal_close rid

text \<open>The two continuations of \<open>getKeplrFromWindow()\<close>: lines 102-106 and 156-161.\<close>

datatype probeThen = Then_default rid | Then_select rid

text \<open>The two \<open>qrcodeModal\<close> hook objects: lines 118-124 and 171-178. The second also
  hides the selection dialog when a pairing URI is issued.\<close>

datatype qrHooks = Hooks_default | Hooks_select

text \<open>
  The state of the provider. The first six fields are the component's own state and refs.
  \<open>k_callbackClosed\<close> is the variable \<open>callbackClosed\<close> of each call (the connector whose
  cancel callback it holds). \<open>k_connectors\<close> records, for every connector constructed, the
  call whose variable its hooks write and which hooks it got; \<open>k_onConnect\<close> the handlers
  registered with \<open>connector.on("connect", ...)\<close>; \<open>k_probes\<close> the pending
  \<open>getKeplrFromWindow()\<close> calls. \<open>k_createSession\<close> and \<open>k_cancelHook\<close> log the calls of
  \<open>connector.createSession()\<close> and of \<open>callbackClosed()\<close>: both belong to the connector,
  and whatever the connector does in answer reaches the provider as a later call of a
  hook or as its \<open>connect\<close> event. \<open>k_window\<close> says whether \<open>window\<close> is defined,
  \<open>k_wcConnected\<close> what a newly constructed connector reports as \<open>connected\<close>.
\<close>

record kstate =
  k_isModalOpen :: bool
  k_wcUri :: string
  k_lastUsedKeplr :: "keplr option"
  k_defaultConnectionType :: "connection option"
  k_connectionType :: "connection option"
  k_eventListener :: "(topic \<times> keplrHandler) list"
  k_callbackClosed :: "rid \<Rightarrow> cid option"
  k_connectors :: "cid \<Rightarrow> (rid \<times> qrHooks) option"
  k_onConnect :: "(cid \<times> rid) list"
  k_probes :: "probeThen list"
  k_settled :: "rid \<Rightarrow> keplr option settle list"
  k_createSession :: "cid list"
  k_cancelHook :: "cid list"
  k_nextRid :: rid
  k_nextCid :: cid
  k_window :: bool
  k_wcConnected :: bool

definition k_resolve :: "rid \<Rightarrow> keplr option \<Rightarrow> kstate \<Rightarrow> kstate" where
  "k_resolve r v s = s\<lparr>k_settled := (k_settled s)(r := k_settled s r @ [Resolve v])\<rparr>"

definition k_reject :: "rid \<Rightarrow> string option \<Rightarrow> kstate \<Rightarrow> kstate" where
  "k_reject r e s = s\<lparr>k_settled := (k_settled s)(r := k_settled s r @ [Reject e])\<rparr>"

text \<open>\<open>cleanUp\<close>, lines 140-146.\<close>

definition k_cleanUp :: "kstate \<Rightarrow> kstate" where
  "k_cleanUp s =
     s\<lparr>k_eventListener :=
         off ''connect'' (off ''wc_qr_modal_close'' (off ''select_wallet_connect''
           (off ''select_extension'' (off ''modal_close'' (k_eventListener s)))))\<rparr>"

text \<open>\<open>new WalletConnect({...})\<close>: a fresh connector with the given hooks.\<close>

definition k_newConnector :: "rid \<Rightarrow> qrHooks \<Rightarrow> kstate \<Rightarrow> kstate" where
  "k_newConnector r h s =
     s\<lparr>k_connectors := (k_connectors s)(k_nextCid s \<mapsto> (r, h)), k_nextCid := Suc (k_nextCid s)\<rparr>"

text \<open>Lines 128-133, 198-204 and 208-214: wrap the connector, cache it, resolve.\<close>

definition k_useConnector :: "rid \<Rightarrow> cid \<Rightarrow> kstate \<Rightarrow> kstate" where
  "k_useConnector r c s =
     k_resolve r (Some (KeplrWalletConnectV1 c))
       (s\<lparr>k_lastUsedKeplr := Some (KeplrWalletConnectV1 c),
          k_connectionType := Some WalletConnect\<rparr>)"

text \<open>The handler of the connector's \<open>connect\<close> event, lines 193-206.\<close>

definition k_connectHandler :: "rid \<Rightarrow> cid \<Rightarrow> string option \<Rightarrow> kstate \<Rightarrow> kstate" where
  "k_connectHandler r c err s =
     (case err of
        Some e \<Rightarrow> k_reject r (Some e) (k_cleanUp s)
      | None \<Rightarrow> k_useConnector r c ((k_cleanUp s)\<lparr>k_isModalOpen := False\<rparr>))"

text \<open>The listeners on the event channel, lines 148-217.\<close>

fun k_handle :: "keplrHandler \<Rightarrow> kstate \<Rightarrow> kstate" where
  "k_handle (K_modal_close r) s = k_cleanUp (k_reject r None (s\<lparr>k_isModalOpen := False\<rparr>))"
| "k_handle (K_select_extension r) s =
     s\<lparr>k_isModalOpen := False, k_probes := k_probes s @ [Then_select r]\<rparr>"
| "k_handle (K_select_wallet_connect r) s =
     (let c = k_nextCid s;
          s1 = k_newConnector r Hooks_select s;
          s2 = s1\<lparr>k_eventListener :=
                   on ''wc_qr_modal_close'' (K_wc_qr_modal_close r) (k_eventListener s1)\<rparr>
      in if \<not> k_wcConnected s2
         then s2\<lparr>k_createSession := k_createSession s2 @ [c],
                 k_onConnect := k_onConnect s2 @ [(c, r)]\<rparr>
         else k_cleanUp (k_useConnector r c (s2\<lparr>k_isModalOpen := False\<rparr>)))"
| "k_handle (K_wc_qr_modal_close r) s =
     (let s1 = s\<lparr>k_wcUri := []\<rparr>
      in case k_callbackClosed s r of
           None \<Rightarrow> s1
         | Some c \<Rightarrow> s1\<lparr>k_cancelHook := k_cancelHook s1 @ [c]\<rparr>)"

definition k_emit :: "topic \<Rightarrow> kstate \<Rightarrow> kstate" where
  "k_emit t s = fold k_handle (listenersOf t (k_eventListener s)) s"

text \<open>Lines 137-218: the promise that opens the selection dialog.\<close>

definition k_prompt :: "rid \<Rightarrow> kstate \<Rightarrow> kstate" where
  "k_prompt r s =
     s\<lparr>k_isModalOpen := True,
       k_eventListener :=
         on ''select_wallet_connect'' (K_select_wallet_connect r)
           (on ''select_extension'' (K_select_extension r)
             (on ''modal_close'' (K_modal_close r) (k_eventListener s)))\<rparr>"

text \<open>\<open>getKeplr\<close>, lines 92-219. The call is number \<open>k_nextRid\<close> of the state it starts
  in, and its promise starts pending.\<close>

definition getKeplr :: "kstate \<Rightarrow> kstate" where
  "getKeplr s0 =
     (let r = k_nextRid s0;
          s = s0\<lparr>k_nextRid := Suc r, k_settled := (k_settled s0)(r := [])\<rparr>
      in if \<not> k_window s then k_resolve r None s
         else case k_lastUsedKeplr s of
           Some k \<Rightarrow> k_resolve r (Some k) s
         | None \<Rightarrow>
             if k_defaultConnectionType s = Some Extension
             then s\<lparr>k_probes := k_probes s @ [Then_default r]\<rparr>
             else if k_defaultConnectionType s = Some WalletConnect
             then (let c = k_nextCid s; s1 = k_newConnector r Hooks_default s
                   in if k_wcConnected s1 then k_useConnector r c s1 else k_prompt r s1)
             else k_prompt r s)"

definition clearLastUsedKeplr :: "kstate \<Rightarrow> kstate" where
  "clearLastUsedKeplr s = s\<lparr>k_lastUsedKeplr := None, k_connectionType := None\<rparr>"

definition k_setDefaultConnectionType :: "connection option \<Rightarrow> kstate \<Rightarrow> kstate" where
  "k_setDefaultConnectionType t s = s\<lparr>k_defaultConnectionType := t\<rparr>"

text \<open>The continuation of a probe, run with what \<open>getKeplrFromWindow()\<close> fulfilled with
  (\<open>None\<close>: no extension).\<close>

fun k_then :: "probeThen \<Rightarrow> keplr option \<Rightarrow> kstate \<Rightarrow> kstate" where
  "k_then (Then_default r) v s =
     k_resolve r v (s\<lparr>k_lastUsedKeplr := v, k_connectionType := Some Extension\<rparr>)"
| "k_then (Then_select r) v s =
     k_cleanUp (k_resolve r v (s\<lparr>k_lastUsedKeplr := v, k_connectionType := Some Extension\<rparr>))"

definition k_probeSettles :: "keplr option \<Rightarrow> kstate \<Rightarrow> kstate" where
  "k_probeSettles v s =
     (case k_probes s of [] \<Rightarrow> s | p # ps \<Rightarrow> k_then p v (s\<lparr>k_probes := ps\<rparr>))"

text \<open>The \<open>qrcodeModal\<close> hooks, called by the connector.\<close>

definition k_qrOpen :: "cid \<Rightarrow> string \<Rightarrow> kstate \<Rightarrow> kstate" where
  "k_qrOpen c uri s =
     (case k_connectors s c of
        None \<Rightarrow> s
      | Some (r, Hooks_default) \<Rightarrow>
          s\<lparr>k_wcUri := uri, k_callbackClosed := (k_callbackClosed s)(r \<mapsto> c)\<rparr>
      | Some (r, Hooks_select) \<Rightarrow>
          s\<lparr>k_isModalOpen := False, k_wcUri := uri,
            k_callbackClosed := (k_callbackClosed s)(r \<mapsto> c)\<rparr>)"

definition k_qrClose :: "cid \<Rightarrow> kstate \<Rightarrow> kstate" where
  "k_qrClose c s = (case k_connectors s c of None \<Rightarrow> s | Some _ \<Rightarrow> s\<lparr>k_wcUri := []\<rparr>)"

text \<open>
  The connector \<open>c\<close> fires its \<open>connect\<close> event, with an error or with \<open>null\<close>. A
  connector fires this event at most once: the handlers it has run are dropped, since
  they can never run again.
\<close>

definition k_connect :: "cid \<Rightarrow> string option \<Rightarrow> kstate \<Rightarrow> kstate" where
  "k_connect c err s =
     fold (\<lambda>h. k_connectHandler (snd h) c err) (filter (\<lambda>h. fst h = c) (k_onConnect s))
       (s\<lparr>k_onConnect := filter (\<lambda>h. fst h \<noteq> c) (k_onConnect s)\<rparr>)"

text \<open>
  What can happen to the provider: calls of its three operations, the four callbacks of
  the two dialogs (a dialog that is not shown renders nothing, so its callbacks cannot
  run), a probe that fulfils, the connector's hooks and event, and a change of the stored
  WalletConnect session.
\<close>

datatype keplrEvent =
    GetKeplr
  | ClearLastUsedKeplr
  | SetDefaultConnectionType "connection option"
  | CloseSelectModal
  | SelectExtension
  | SelectWalletConnect
  | CloseQRModal
  | ProbeSettles "keplr option"
  | QrcodeModalOpen cid string
  | QrcodeModalClose cid
  | ConnectEvent cid "string option"
  | StoredSession bool

fun k_step :: "keplrEvent \<Rightarrow> kstate \<Rightarrow> kstate" where
  "k_step GetKeplr s = getKeplr s"
| "k_step ClearLastUsedKeplr s = clearLastUsedKeplr s"
| "k_step (SetDefaultConnectionType t) s = k_setDefaultConnectionType t s"
| "k_step CloseSelectModal s = (if k_isModalOpen s then k_emit ''modal_close'' s else s)"
| "k_step SelectExtension s = (if k_isModalOpen s then k_emit ''select_extension'' s else s)"
| "k_step SelectWalletConnect s =
     (if k_isModalOpen s then k_emit ''select_wallet_connect'' s else s)"
| "k_step CloseQRModal s = (if k_wcUri s \<noteq> [] then k_emit ''wc_qr_modal_close'' s else s)"
| "k_step (ProbeSettles v) s = k_probeSettles v s"
| "k_step (QrcodeModalOpen c uri) s = k_qrOpen c uri s"
| "k_step (QrcodeModalClose c) s = k_qrClose c s"
| "k_step (ConnectEvent c err) s = k_connect c err s"
| "k_step (StoredSession b) s = s\<lparr>k_wcConnected := b\<rparr>"

definition k_run :: "keplrEvent list \<Rightarrow> kstate \<Rightarrow> kstate" where
  "k_run es s = fold k_step es s"

text \<open>The provider as mounted: nothing cached, no preference, both dialogs hidden.\<close>

definition k_init :: "bool \<Rightarrow> bool \<Rightarrow> kstate" where
  "k_init window connected =
     \<lparr>k_isModalOpen = False, k_wcUri = [], k_lastUsedKeplr = None,
      k_defaultConnectionType = None, k_connectionType = None, k_eventListener = [],
      k_callbackClosed = (\<lambda>_. None), k_connectors = (\<lambda>_. None), k_onConnect = [],
      k_probes = [], k_settled = (\<lambda>_. []), k_createSession = [], k_cancelHook = [],
      k_nextRid = 0, k_nextCid = 0, k_window = window, k_wcConnected = connected\<rparr>"

section \<open>\<open>GetWalletProvider\<close> (src/components/GetWalletProvider.tsx, lines 29-167)\<close>

text \<open>A wallet object is opaque to the provider. A resolver's result is \<open>None\<close> when it
  yields \<open>undefined\<close>.\<close>

type_synonym wallet = nat

text \<open>
  \<open>WalletInfo\<close>. Its resolver \<open>getWallet\<close> is a function of the application: the model
  records that it was called and takes what its promise settles with from the
  environment (\<open>w_walletSettles\<close>).
\<close>

record walletInfo =
  wi_id :: string
  wi_name :: string
  wi_description :: string
  wi_logoImgUrl :: string

datatype walletHandler =
    W_modal_close rid
  | W_wc_qr_modal_close rid
  | W_select rid walletInfo

text \<open>A call \<open>resolveWallet(walletInfo, resolver)\<close> suspended at
  \<open>await walletInfo.getWallet(wcConnector)\<close>, for the call \<open>rid\<close> of \<open>getWallet\<close>; the
  flag says whether a \<open>resolver\<close> was passed.\<close>

datatype resolveWalletCall = ResolveWallet walletInfo rid bool

text \<open>
  The state of the provider, as for \<open>kstate\<close>. Every call that gets past the cache
  constructs one connector, which is identified with the call: \<open>w_connected\<close> is its
  \<open>connected\<close> flag (\<open>None\<close>: the call constructed none), \<open>w_callbackClosed\<close> says
  whether the call's variable \<open>callbackClosed\<close> holds the connector's cancel callback.
\<close>

record wstate =
  w_walletInfoList :: "walletInfo list"
  w_isModalOpen :: bool
  w_wcUri :: string
  w_lastUsedWallet :: "wallet option"
  w_defaultConnectionType :: "string option"
  w_connectionType :: "string option"
  w_eventListener :: "(topic \<times> walletHandler) list"
  w_callbackClosed :: "rid \<Rightarrow> bool"
  w_connected :: "rid \<Rightarrow> bool option"
  w_onConnect :: "(rid \<times> walletInfo) list"
  w_pending :: "resolveWalletCall list"
  w_settled :: "rid \<Rightarrow> wallet option settle list"
  w_createSession :: "rid list"
  w_cancelHook :: "rid list"
  w_nextRid :: rid
  w_window :: bool
  w_wcConnected :: bool

definition w_resolve :: "rid \<Rightarrow> wallet option \<Rightarrow> wstate \<Rightarrow> wstate" where
  "w_resolve r v s = s\<lparr>w_settled := (w_settled s)(r := w_settled s r @ [Resolve v])\<rparr>"

definition w_reject :: "rid \<Rightarrow> string option \<Rightarrow> wstate \<Rightarrow> wstate" where
  "w_reject r e s = s\<lparr>w_settled := (w_settled s)(r := w_settled s r @ [Reject e])\<rparr>"

text \<open>\<open>cleanUp\<close>, lines 50-56.\<close>

definition w_cleanUp :: "wstate \<Rightarrow> wstate" where
  "w_cleanUp s =
     s\<lparr>w_eventListener :=
         fold (\<lambda>walletInfo. off (wi_id walletInfo)) (w_walletInfoList s)
           (off ''wc_qr_modal_close'' (off ''modal_close'' (w_eventListener s)))\<rparr>"

text \<open>\<open>resolveWallet\<close>, lines 75-84, up to its \<open>await\<close>: the resolver is called.\<close>

definition w_resolveWallet :: "walletInfo \<Rightarrow> rid \<Rightarrow> bool \<Rightarrow> wstate \<Rightarrow> wstate" where
  "w_resolveWallet walletInfo r resolver s =
     s\<lparr>w_pending := w_pending s @ [ResolveWallet walletInfo r resolver]\<rparr>"

text \<open>
  \<open>resolveWallet\<close> after its \<open>await\<close>. When the resolver's promise fulfils, lines 80-83
  run. When it rejects, the promise of \<open>resolveWallet\<close> rejects: that promise is the one
  \<open>getWallet\<close> returned when no \<open>resolver\<close> was passed (line 90), and is dropped by the
  listener otherwise (lines 121, 125, 128).
\<close>

fun w_resume :: "resolveWalletCall \<Rightarrow> wallet option settle \<Rightarrow> wstate \<Rightarrow> wstate" where
  "w_resume (ResolveWallet walletInfo r resolver) (Resolve wallet) s =
     w_resolve r wallet
       (w_cleanUp (s\<lparr>w_lastUsedWallet := wallet, w_connectionType := Some (wi_id walletInfo)\<rparr>))"
| "w_resume (ResolveWallet walletInfo r resolver) (Reject e) s =
     (if resolver then s else w_reject r e s)"

definition w_walletSettles :: "nat \<Rightarrow> wallet option settle \<Rightarrow> wstate \<Rightarrow> wstate" where
  "w_walletSettles n outcome s =
     (if n < length (w_pending s)
      then w_resume (w_pending s ! n) outcome
             (s\<lparr>w_pending := take n (w_pending s) @ drop (Suc n) (w_pending s)\<rparr>)
      else s)"

definition startsWith :: "string \<Rightarrow> string \<Rightarrow> bool" where
  "startsWith s p = (take (length p) s = p)"

text \<open>The listeners on the event channel, lines 96-131.\<close>

fun w_handle :: "walletHandler \<Rightarrow> wstate \<Rightarrow> wstate" where
  "w_handle (W_modal_close r) s = w_cleanUp (w_reject r None (s\<lparr>w_isModalOpen := False\<rparr>))"
| "w_handle (W_wc_qr_modal_close r) s =
     (let s1 = s\<lparr>w_wcUri := []\<rparr>
      in if w_callbackClosed s r then s1\<lparr>w_cancelHook := w_cancelHook s1 @ [r]\<rparr> else s1)"
| "w_handle (W_select r walletInfo) s =
     (let s1 = s\<lparr>w_isModalOpen := False\<rparr>
      in if startsWith (wi_id walletInfo) ''walletconnect''
         then if w_connected s1 r \<noteq> Some True
              then s1\<lparr>w_createSession := w_createSession s1 @ [r],
                      w_onConnect := w_onConnect s1 @ [(r, walletInfo)]\<rparr>
              else w_resolveWallet walletInfo r True s1
         else w_resolveWallet walletInfo r True s1)"

definition w_emit :: "topic \<Rightarrow> wstate \<Rightarrow> wstate" where
  "w_emit t s = fold w_handle (listenersOf t (w_eventListener s)) s"

text \<open>Lines 93-132: the promise that opens the selection dialog.\<close>

definition w_prompt :: "rid \<Rightarrow> wstate \<Rightarrow> wstate" where
  "w_prompt r s =
     s\<lparr>w_isModalOpen := True,
       w_eventListener :=
         fold (\<lambda>walletInfo. on (wi_id walletInfo) (W_select r walletInfo)) (w_walletInfoList s)
           (on ''wc_qr_modal_close'' (W_wc_qr_modal_close r)
             (on ''modal_close'' (W_modal_close r) (w_eventListener s)))\<rparr>"

text \<open>\<open>getWallet\<close>, lines 41-133.\<close>

definition getWallet :: "wstate \<Rightarrow> wstate" where
  "getWallet s0 =
     (let r = w_nextRid s0;
          s = s0\<lparr>w_nextRid := Suc r, w_settled := (w_settled s0)(r := [])\<rparr>
      in if \<not> w_window s then w_resolve r None s
         else case w_lastUsedWallet s of
           Some w \<Rightarrow> w_resolve r (Some w) s
         | None \<Rightarrow>
             (let s1 = s\<lparr>w_connected := (w_connected s)(r \<mapsto> w_wcConnected s)\<rparr>
              in case find (\<lambda>walletInfo. w_defaultConnectionType s1 = Some (wi_id walletInfo))
                        (w_walletInfoList s1) of
                   Some walletInfo \<Rightarrow> w_resolveWallet walletInfo r False s1
                 | None \<Rightarrow> w_prompt r s1))"

definition clearLastUsedWallet :: "wstate \<Rightarrow> wstate" where
  "clearLastUsedWallet s = s\<lparr>w_lastUsedWallet := None, w_connectionType := None\<rparr>"

definition w_setDefaultConnectionType :: "string option \<Rightarrow> wstate \<Rightarrow> wstate" where
  "w_setDefaultConnectionType t s = s\<lparr>w_defaultConnectionType := t\<rparr>"

text \<open>The \<open>qrcodeModal\<close> hooks of the connector of call \<open>c\<close>, lines 66-72.\<close>

definition w_qrOpen :: "rid \<Rightarrow> string \<Rightarrow> wstate \<Rightarrow> wstate" where
  "w_qrOpen c uri s =
     (case w_connected s c of
        None \<Rightarrow> s
      | Some _ \<Rightarrow> s\<lparr>w_wcUri := uri, w_callbackClosed := (w_callbackClosed s)(c := True)\<rparr>)"

definition w_qrClose :: "rid \<Rightarrow> wstate \<Rightarrow> wstate" where
  "w_qrClose c s = (case w_connected s c of None \<Rightarrow> s | Some _ \<Rightarrow> s\<lparr>w_wcUri := []\<rparr>)"

text \<open>The handler of the connector's \<open>connect\<close> event, lines 117-123.\<close>

definition w_connectHandler :: "rid \<Rightarrow> walletInfo \<Rightarrow> string option \<Rightarrow> wstate \<Rightarrow> wstate" where
  "w_connectHandler r walletInfo err s =
     (case err of
        Some e \<Rightarrow> w_reject r (Some e) s
      | None \<Rightarrow> w_resolveWallet walletInfo r True s)"

text \<open>
  The connector of call \<open>c\<close> fires its \<open>connect\<close> event, with an error or with
  \<open>null\<close>; without an error the connector is connected from then on. It fires at most
  once, so the handlers it has run are dropped.
\<close>

definition w_connect :: "rid \<Rightarrow> string option \<Rightarrow> wstate \<Rightarrow> wstate" where
  "w_connect c err s =
     (case w_connected s c of
        None \<Rightarrow> s
      | Some _ \<Rightarrow>
          (let s1 = (if err = None then s\<lparr>w_connected := (w_connected s)(c \<mapsto> True)\<rparr> else s)
           in fold (\<lambda>h. w_connectHandler c (snd h) err)
                (filter (\<lambda>h. fst h = c) (w_onConnect s1))
                (s1\<lparr>w_onConnect := filter (\<lambda>h. fst h \<noteq> c) (w_onConnect s1)\<rparr>)))"

datatype walletEvent =
    GetWallet
  | ClearLastUsedWallet
  | SetDefaultWalletType "string option"
  | CloseSelectWalletModal
  | SelectWallet string
  | CloseWalletQRModal
  | WalletSettles nat "wallet option settle"
  | WalletQrOpen rid string
  | WalletQrClose rid
  | WalletConnectEvent rid "string option"
  | WalletStoredSession bool

fun w_step :: "walletEvent \<Rightarrow> wstate \<Rightarrow> wstate" where
  "w_step GetWallet s = getWallet s"
| "w_step ClearLastUsedWallet s = clearLastUsedWallet s"
| "w_step (SetDefaultWalletType t) s = w_setDefaultConnectionType t s"
| "w_step CloseSelectWalletModal s = (if w_isModalOpen s then w_emit ''modal_close'' s else s)"
| "w_step (SelectWallet walletId) s =
     (if w_isModalOpen s \<and> walletId \<in> set (map wi_id (w_walletInfoList s))
      then w_emit walletId s else s)"
| "w_step CloseWalletQRModal s =
     (if w_wcUri s \<noteq> [] then w_emit ''wc_qr_modal_close'' s else s)"
| "w_step (WalletSettles n outcome) s = w_walletSettles n outcome s"
| "w_step (WalletQrOpen c uri) s = w_qrOpen c uri s"
| "w_step (WalletQrClose c) s = w_qrClose c s"
| "w_step (WalletConnectEvent c err) s = w_connect c err s"
| "w_step (WalletStoredSession b) s = s\<lparr>w_wcConnected := b\<rparr>"

definition w_run :: "walletEvent list \<Rightarrow> wstate \<Rightarrow> wstate" where
  "w_run es s = fold w_step es s"

definition w_init :: "walletInfo list \<Rightarrow> bool \<Rightarrow> bool \<Rightarrow> wstate" where
  "w_init walletInfoList window connected =
     \<lparr>w_walletInfoList = walletInfoList, w_isModalOpen = False, w_wcUri = [],
      w_lastUsedWallet = None, w_defaultConnectionType = None, w_connectionType = None,
      w_eventListener = [], w_callbackClosed = (\<lambda>_. False), w_connected = (\<lambda>_. None),
      w_onConnect = [], w_pending = [], w_settled = (\<lambda>_. []), w_createSession = [],
      w_cancelHook = [], w_nextRid = 0, w_window = window, w_wcConnected = connected\<rparr>"

text \<open>The two wallet methods of scenario A of the specification, \<open>extension\<close> and
  \<open>walletconnect\<close>.\<close>

definition extensionInfo :: walletInfo where
  "extensionInfo =
     \<lparr>wi_id = ''extension'', wi_name = ''Keplr'', wi_description = ''Browser extension'',
      wi_logoImgUrl = ''keplr.png''\<rparr>"

definition walletconnectInfo :: walletInfo where
  "walletconnectInfo =
     \<lparr>wi_id = ''walletconnect'', wi_name = ''WalletConnect'', wi_description = ''Mobile'',
      wi_logoImgUrl = ''wc.png''\<rparr>"

section \<open>States in which no request is in flight\<close>

text \<open>
  A provider is quiet when no listener is registered on its event channel, no probe or
  resolver is pending, and no \<open>connect\<close> handler waits on a connector. It is idle when,
  besides, \<open>window\<close> exists and nothing is cached. The freshly mounted provider is idle,
  and so is a provider whose requests have all run to their end and whose cache has been
  cleared.
\<close>

definition k_quiet :: "kstate \<Rightarrow> bool" where
  "k_quiet s \<longleftrightarrow> k_eventListener s = [] \<and> k_probes s = [] \<and> k_onConnect s = []"

definition k_idle :: "kstate \<Rightarrow> bool" where
  "k_idle s \<longleftrightarrow> k_window s \<and> k_lastUsedKeplr s = None \<and> k_quiet s"

definition w_quiet :: "wstate \<Rightarrow> bool" where
  "w_quiet s \<longleftrightarrow> w_eventListener s = [] \<and> w_pending s = [] \<and> w_onConnect s = []"

text \<open>The wallet ids of \<open>GetWalletProvider\<close> are unique, and none of them is the topic
  of a dialog's own event.\<close>

definition w_ids_ok :: "wstate \<Rightarrow> bool" where
  "w_ids_ok s \<longleftrightarrow>
     distinct (map wi_id (w_walletInfoList s)) \<and>
     ''modal_close'' \<notin> set (map wi_id (w_walletInfoList s)) \<and>
     ''wc_qr_modal_close'' \<notin> set (map wi_id (w_walletInfoList s))"

definition w_idle :: "wstate \<Rightarrow> bool" where
  "w_idle s \<longleftrightarrow> w_window s \<and> w_lastUsedWallet s = None \<and> w_quiet s \<and> w_ids_ok s"

section \<open>Paths of one request\<close>

text \<open>
  The prompted path starts with no preference stored. The pairing path goes on with no
  stored WalletConnect session: the user picks the remote method, \<open>createSession()\<close> is
  called on the connector \<open>c\<close>, and the connector issues the pairing URI through its
  \<open>open\<close> hook.
\<close>

definition k_prompted :: "keplrEvent list" where
  "k_prompted = [SetDefaultConnectionType None, GetKeplr]"

definition k_pairing :: "cid \<Rightarrow> string \<Rightarrow> keplrEvent list" where
  "k_pairing c uri =
     [SetDefaultConnectionType None, StoredSession False, GetKeplr, SelectWalletConnect,
      QrcodeModalOpen c uri]"

definition w_prompted :: "walletEvent list" where
  "w_prompted = [SetDefaultWalletType None, GetWallet]"

definition w_pairing :: "string \<Rightarrow> rid \<Rightarrow> string \<Rightarrow> walletEvent list" where
  "w_pairing walletId c uri =
     [SetDefaultWalletType None, WalletStoredSession False, GetWallet, SelectWallet walletId,
      WalletQrOpen c uri]"

text \<open>The two providers as mounted in a browser that stores no WalletConnect session;
  \<open>GetWalletProvider\<close> is given the two wallet methods above.\<close>

definition k_mounted :: kstate where
  "k_mounted = k_init True False"

definition w_mounted :: wstate where
  "w_mounted = w_init [extensionInfo, walletconnectInfo] True False"

section \<open>The request a listener belongs to\<close>

text \<open>
  Every listener is a closure over the call of \<open>getKeplr\<close> or \<open>getWallet\<close> that
  registered it (\<open>k_owner\<close>, \<open>w_owner\<close>), and each kind of listener is registered under one
  topic (\<open>k_topic\<close>, \<open>w_topic\<close>). A continuation of a probe and a suspended call of
  \<open>resolveWallet\<close> belong to a call in the same way.
\<close>

fun k_owner :: "keplrHandler \<Rightarrow> rid" where
  "k_owner (K_modal_close r) = r"
| "k_owner (K_select_extension r) = r"
| "k_owner (K_select_wallet_connect r) = r"
| "k_owner (K_wc_qr_modal_close r) = r"

fun k_topic :: "keplrHandler \<Rightarrow> topic" where
  "k_topic (K_modal_close r) = ''modal_close''"
| "k_topic (K_select_extension r) = ''select_extension''"
| "k_topic (K_select_wallet_connect r) = ''select_wallet_connect''"
| "k_topic (K_wc_qr_modal_close r) = ''wc_qr_modal_close''"

fun probeOwner :: "probeThen \<Rightarrow> rid" where
  "probeOwner (Then_default r) = r"
| "probeOwner (Then_select r) = r"

fun w_owner :: "walletHandler \<Rightarrow> rid" where
  "w_owner (W_modal_close r) = r"
| "w_owner (W_wc_qr_modal_close r) = r"
| "w_owner (W_select r walletInfo) = r"

fun w_topic :: "walletHandler \<Rightarrow> topic" where
  "w_topic (W_modal_close r) = ''modal_close''"
| "w_topic (W_wc_qr_modal_close r) = ''wc_qr_modal_close''"
| "w_topic (W_select r walletInfo) = wi_id walletInfo"


text \<open>
  What holds of \<open>GetKeplrProvider\<close> in every state it reaches: a registered listener sits
  under its own topic and belongs to a call that has been made, whose promise is still
  pending and which did not take the path of the extension preference; every pending probe
  belongs to a call that has been made. \<open>k_ready\<close> is what a listener of the snapshot of
  an emission needs when its turn comes.
\<close>

definition k_inv :: "kstate \<Rightarrow> bool" where
  "k_inv s \<longleftrightarrow>
     (\<forall>l \<in> set (k_eventListener s).
        fst l = k_topic (snd l) \<and> k_owner (snd l) < k_nextRid s \<and>
        k_settled s (k_owner (snd l)) = [] \<and> Then_default (k_owner (snd l)) \<notin> set (k_probes s)) \<and>
     (\<forall>p \<in> set (k_probes s). probeOwner p < k_nextRid s)"

definition k_ready :: "keplrHandler \<Rightarrow> kstate \<Rightarrow> bool" where
  "k_ready h s \<longleftrightarrow>
     k_owner h < k_nextRid s \<and>
     (k_topic h = ''select_wallet_connect'' \<and> \<not> k_wcConnected s \<longrightarrow>
        k_settled s (k_owner h) = [] \<and> Then_default (k_owner h) \<notin> set (k_probes s))"



fun w_known :: "walletInfo list \<Rightarrow> walletHandler \<Rightarrow> bool" where
  "w_known walletInfoList (W_select r walletInfo) \<longleftrightarrow> walletInfo \<in> set walletInfoList"
| "w_known walletInfoList h \<longleftrightarrow> True"

definition w_topics :: "wstate \<Rightarrow> bool" where
  "w_topics s \<longleftrightarrow>
     (\<forall>l \<in> set (w_eventListener s).
        fst l = w_topic (snd l) \<and> w_known (w_walletInfoList s) (snd l))"


section \<open>Lemmas on the event channel and on the mounted providers\<close>

lemma fold_on: "fold (\<lambda>x. on (f x) (h x)) xs ls = ls @ map (\<lambda>x. (f x, h x)) xs"
  by (induction xs arbitrary: ls) (simp_all add: on_def)

lemma fold_off: "fold (\<lambda>x. off (f x)) xs ls = filter (\<lambda>l. fst l \<notin> f ` set xs) ls"
  by (induction xs arbitrary: ls) (auto simp: off_def intro: filter_cong)

lemma listeners_none:
  "t \<notin> f ` set xs \<Longrightarrow> filter (\<lambda>l. fst l = t) (map (\<lambda>x. (f x, h x)) xs) = []"
  by (induction xs) auto

lemma listeners_one:
  "distinct (map f xs) \<Longrightarrow> x \<in> set xs \<Longrightarrow>
   filter (\<lambda>l. fst l = f x) (map (\<lambda>y. (f y, h y)) xs) = [(f x, h x)]"
proof (induction xs)
  case Nil
  then show ?case by simp
next
  case (Cons y ys)
  show ?case
  proof (cases "y = x")
    case True
    with Cons.prems have "f x \<notin> f ` set ys" by simp
    then have "filter (\<lambda>l. fst l = f x) (map (\<lambda>y. (f y, h y)) ys) = []"
      by (rule listeners_none)
    with True show ?thesis by simp
  next
    case False
    with Cons.prems have "x \<in> set ys" and "f y \<noteq> f x" and "distinct (map f ys)" by auto
    with Cons.IH show ?thesis by simp
  qed
qed

lemma off_registered:
  "filter (\<lambda>l. fst l \<notin> f ` set xs) (map (\<lambda>x. (f x, h x)) xs) = []"
  by (induction xs) auto

lemma find_never: "find (\<lambda>x. False) xs = None"
  by (induction xs) simp_all

lemma find_by_id:
  "distinct (map f xs) \<Longrightarrow> x \<in> set xs \<Longrightarrow> find (\<lambda>y. f x = f y) xs = Some x"
  by (induction xs) (auto simp: image_iff)

lemma k_idleD:
  assumes "k_idle s"
  shows "k_window s" and "k_lastUsedKeplr s = None" and "k_eventListener s = []"
    and "k_probes s = []" and "k_onConnect s = []"
  using assms by (simp_all add: k_idle_def k_quiet_def)

lemma w_idleD:
  assumes "w_idle t"
  shows "w_window t" and "w_lastUsedWallet t = None" and "w_eventListener t = []"
    and "w_pending t = []" and "w_onConnect t = []"
    and "distinct (map wi_id (w_walletInfoList t))"
    and "''modal_close'' \<notin> wi_id ` set (w_walletInfoList t)"
    and "''wc_qr_modal_close'' \<notin> wi_id ` set (w_walletInfoList t)"
  using assms by (simp_all add: w_idle_def w_quiet_def w_ids_ok_def)

text \<open>A wallet of the list is listened to under its own id, which is no dialog topic.\<close>

lemma w_id_facts:
  assumes "w_idle t" and "wi \<in> set (w_walletInfoList t)"
  shows "wi_id wi \<noteq> ''modal_close''" and "wi_id wi \<noteq> ''wc_qr_modal_close''"
    and "''modal_close'' \<noteq> wi_id wi" and "''wc_qr_modal_close'' \<noteq> wi_id wi"
    and "wi_id wi \<in> wi_id ` set (w_walletInfoList t)"
  using assms by (auto simp: w_idle_def w_ids_ok_def image_iff)

lemmas chan_defs = on_def off_def listenersOf_def promiseState_def Let_def

lemmas k_defs = k_run_def getKeplr_def k_prompt_def k_emit_def
  k_newConnector_def k_qrOpen_def k_qrClose_def k_connect_def k_connectHandler_def
  k_useConnector_def k_resolve_def k_reject_def k_cleanUp_def k_probeSettles_def
  k_setDefaultConnectionType_def clearLastUsedKeplr_def k_prompted_def k_pairing_def

lemmas w_defs = w_run_def getWallet_def w_prompt_def w_emit_def
  w_qrOpen_def w_qrClose_def w_connect_def w_connectHandler_def w_resolveWallet_def
  w_resolve_def w_reject_def w_cleanUp_def w_walletSettles_def w_setDefaultConnectionType_def
  clearLastUsedWallet_def w_prompted_def w_pairing_def
  fold_on fold_off listeners_none listeners_one off_registered find_never find_by_id

lemmas k_mounted_defs = k_mounted_def k_init_def k_idle_def k_quiet_def

lemmas w_mounted_defs = w_mounted_def w_init_def w_idle_def w_quiet_def w_ids_ok_def
  extensionInfo_def walletconnectInfo_def startsWith_def

lemma k_mounted_idle: "k_idle k_mounted"
  by (simp add: k_mounted_defs)

lemma w_mounted_idle: "w_idle w_mounted"
  by (simp add: w_mounted_defs)

lemma w_mounted_wallets:
  "extensionInfo \<in> set (w_walletInfoList w_mounted)"
  "\<not> startsWith (wi_id extensionInfo) ''walletconnect''"
  "walletconnectInfo \<in> set (w_walletInfoList w_mounted)"
  "startsWith (wi_id walletconnectInfo) ''walletconnect''"
  by (simp_all add: w_mounted_defs)

lemma mounted_ids:
  "k_nextRid k_mounted = 0" "k_nextCid k_mounted = 0" "w_nextRid w_mounted = 0"
  "wi_id extensionInfo = ''extension''" "wi_id walletconnectInfo = ''walletconnect''"
  by (simp_all add: k_mounted_defs w_mounted_defs)

section \<open>Invariants of the reachable states\<close>

subsection \<open>\<open>GetKeplrProvider\<close>\<close>

lemma k_inv_init: "k_inv (k_init window connected)"
  by (simp add: k_inv_def k_init_def)

lemma k_topic_cases:
  "k_topic h = ''modal_close'' \<or> k_topic h = ''select_extension'' \<or>
   k_topic h = ''select_wallet_connect'' \<or> k_topic h = ''wc_qr_modal_close''"
  by (cases h) simp_all

lemma k_cleanUp_empties:
  assumes "\<forall>l \<in> set (k_eventListener s). fst l = k_topic (snd l)"
  shows "k_eventListener (k_cleanUp s) = []"
proof -
  have "\<And>l. l \<in> set (k_eventListener s) \<Longrightarrow>
          fst l = ''modal_close'' \<or> fst l = ''select_extension'' \<or>
          fst l = ''select_wallet_connect'' \<or> fst l = ''wc_qr_modal_close''"
    using assms k_topic_cases by metis
  then show ?thesis
    by (auto simp: k_cleanUp_def off_def filter_empty_conv)
qed

text \<open>A state without listeners satisfies the invariant as soon as its probes do.\<close>

lemma k_inv_no_listeners:
  "k_eventListener s = [] \<Longrightarrow> (\<forall>p \<in> set (k_probes s). probeOwner p < k_nextRid s) \<Longrightarrow> k_inv s"
  by (simp add: k_inv_def)

lemma k_invD:
  assumes "k_inv s"
  shows "\<forall>l \<in> set (k_eventListener s). fst l = k_topic (snd l)"
    and "\<forall>p \<in> set (k_probes s). probeOwner p < k_nextRid s"
  using assms by (auto simp: k_inv_def)

lemma k_handle_inv:
  assumes "k_inv s" and "k_ready h s"
  shows "k_inv (k_handle h s)"
proof (cases h)
  case (K_modal_close r)
  have "k_eventListener (k_handle h s) = []"
    using k_cleanUp_empties [of "k_reject r None (s\<lparr>k_isModalOpen := False\<rparr>)"] k_invD(1) [OF assms(1)]
    by (simp add: K_modal_close k_reject_def)
  moreover have "\<forall>p \<in> set (k_probes (k_handle h s)). probeOwner p < k_nextRid (k_handle h s)"
    using k_invD(2) [OF assms(1)] by (simp add: K_modal_close k_reject_def k_cleanUp_def)
  ultimately show ?thesis by (rule k_inv_no_listeners)
next
  case (K_select_extension r)
  with assms show ?thesis
    by (auto simp: k_inv_def k_ready_def)
next
  case (K_select_wallet_connect r)
  show ?thesis
  proof (cases "k_wcConnected s")
    case True
    let ?s2 = "(k_newConnector r Hooks_select s)\<lparr>k_eventListener :=
        on ''wc_qr_modal_close'' (K_wc_qr_modal_close r) (k_eventListener s)\<rparr>"
    have topics: "\<forall>l \<in> set (k_eventListener (k_useConnector r (k_nextCid s) (?s2\<lparr>k_isModalOpen := False\<rparr>))).
        fst l = k_topic (snd l)"
      using k_invD(1) [OF assms(1)]
      by (auto simp: k_useConnector_def k_resolve_def k_newConnector_def on_def)
    have "k_eventListener (k_handle h s) = []"
      using k_cleanUp_empties [OF topics] True
      by (simp add: K_select_wallet_connect k_newConnector_def Let_def)
    moreover have "\<forall>p \<in> set (k_probes (k_handle h s)). probeOwner p < k_nextRid (k_handle h s)"
      using k_invD(2) [OF assms(1)] True
      by (simp add: K_select_wallet_connect k_newConnector_def k_useConnector_def k_resolve_def
          k_cleanUp_def Let_def)
    ultimately show ?thesis by (rule k_inv_no_listeners)
  next
    case False
    with assms K_select_wallet_connect show ?thesis
      by (auto simp: k_inv_def k_ready_def k_newConnector_def on_def Let_def)
  qed
next
  case (K_wc_qr_modal_close r)
  with assms show ?thesis
    by (auto simp: k_inv_def Let_def split: option.splits)
qed

lemma k_handle_ready:
  assumes "k_ready h' s" and "k_topic h' = k_topic h"
  shows "k_ready h' (k_handle h s)"
  using assms
  by (cases h; cases h')
    (auto simp: k_ready_def k_cleanUp_def k_reject_def k_resolve_def k_useConnector_def
      k_newConnector_def Let_def split: option.splits)

lemma k_handlers_inv:
  assumes "k_inv s" and "\<forall>h \<in> set hs. k_ready h s \<and> k_topic h = t"
  shows "k_inv (fold k_handle hs s)"
  using assms
proof (induction hs arbitrary: s)
  case Nil
  then show ?case by simp
next
  case (Cons h hs)
  from Cons.prems have "k_inv (k_handle h s)"
    by (simp add: k_handle_inv)
  moreover from Cons.prems have "\<forall>h' \<in> set hs. k_ready h' (k_handle h s) \<and> k_topic h' = t"
    by (simp add: k_handle_ready)
  ultimately show ?case
    using Cons.IH by simp
qed

lemma k_registered_ready:
  assumes "k_inv s" and "h \<in> set (listenersOf t (k_eventListener s))"
  shows "k_ready h s \<and> k_topic h = t"
  using assms by (auto simp: k_inv_def k_ready_def listenersOf_def)

lemma k_emit_inv: "k_inv s \<Longrightarrow> k_inv (k_emit t s)"
  unfolding k_emit_def by (rule k_handlers_inv [where t = t]) (simp_all add: k_registered_ready)

lemma k_connectHandlers_inv:
  "k_inv s \<Longrightarrow> k_inv (fold (\<lambda>h. k_connectHandler (snd h) c err) hs s)"
proof (induction hs arbitrary: s)
  case Nil
  then show ?case by simp
next
  case (Cons h hs)
  have "k_eventListener (k_connectHandler (snd h) c err s) = []"
    using k_cleanUp_empties [OF k_invD(1) [OF Cons.prems]]
    by (simp add: k_connectHandler_def k_reject_def k_useConnector_def k_resolve_def
        split: option.splits)
  moreover have "\<forall>p \<in> set (k_probes (k_connectHandler (snd h) c err s)).
      probeOwner p < k_nextRid (k_connectHandler (snd h) c err s)"
    using k_invD(2) [OF Cons.prems]
    by (simp add: k_connectHandler_def k_reject_def k_useConnector_def k_resolve_def k_cleanUp_def
        split: option.splits)
  ultimately have "k_inv (k_connectHandler (snd h) c err s)"
    by (rule k_inv_no_listeners)
  then show ?case
    using Cons.IH by simp
qed

lemma getKeplr_inv:
  assumes "k_inv s"
  shows "k_inv (getKeplr s)"
  using assms
  by (auto simp: k_inv_def getKeplr_def k_resolve_def k_useConnector_def k_newConnector_def
      k_prompt_def on_def Let_def split: option.splits)

lemma k_probeSettles_inv:
  assumes "k_inv s"
  shows "k_inv (k_probeSettles v s)"
proof (cases "k_probes s")
  case Nil
  with assms show ?thesis by (simp add: k_probeSettles_def)
next
  case (Cons p ps)
  show ?thesis
  proof (cases p)
    case (Then_default r)
    with assms Cons show ?thesis
      by (auto simp: k_inv_def k_probeSettles_def k_resolve_def)
  next
    case (Then_select r)
    have "k_eventListener (k_probeSettles v s) = []"
      using k_cleanUp_empties [of "k_resolve r v (s\<lparr>k_probes := ps, k_lastUsedKeplr := v,
          k_connectionType := Some Extension\<rparr>)"] k_invD(1) [OF assms] Cons Then_select
      by (simp add: k_probeSettles_def k_resolve_def)
    moreover have "\<forall>p \<in> set (k_probes (k_probeSettles v s)).
        probeOwner p < k_nextRid (k_probeSettles v s)"
      using k_invD(2) [OF assms] Cons Then_select
      by (simp add: k_probeSettles_def k_resolve_def k_cleanUp_def)
    ultimately show ?thesis by (rule k_inv_no_listeners)
  qed
qed

lemma k_step_inv:
  assumes "k_inv s"
  shows "k_inv (k_step ev s)"
proof (cases ev)
  case GetKeplr
  with assms show ?thesis by (simp add: getKeplr_inv)
next
  case (ProbeSettles v)
  with assms show ?thesis by (simp add: k_probeSettles_inv)
next
  case (ConnectEvent c err)
  from assms have "k_inv (s\<lparr>k_onConnect := filter (\<lambda>h. fst h \<noteq> c) (k_onConnect s)\<rparr>)"
    by (simp add: k_inv_def)
  with ConnectEvent show ?thesis
    by (simp add: k_connect_def k_connectHandlers_inv)
next
  case (QrcodeModalOpen c uri)
  with assms show ?thesis
    by (auto simp: k_inv_def k_qrOpen_def split: option.splits qrHooks.splits)
next
  case ClearLastUsedKeplr
  with assms show ?thesis by (simp add: k_inv_def clearLastUsedKeplr_def)
next
  case (SetDefaultConnectionType t)
  with assms show ?thesis by (simp add: k_inv_def k_setDefaultConnectionType_def)
next
  case (QrcodeModalClose c)
  with assms show ?thesis by (simp add: k_inv_def k_qrClose_def split: option.splits)
next
  case (StoredSession b)
  with assms show ?thesis by (simp add: k_inv_def)
qed (use assms in \<open>simp_all add: k_emit_inv\<close>)

lemma k_run_inv: "k_inv s \<Longrightarrow> k_inv (k_run es s)"
  unfolding k_run_def by (induction es arbitrary: s) (simp_all add: k_step_inv)

subsection \<open>\<open>GetWalletProvider\<close>\<close>
















subsection \<open>The topics of the listeners of \<open>GetWalletProvider\<close>\<close>

lemma w_cleanUp_listeners: "set (w_eventListener (w_cleanUp s)) \<subseteq> set (w_eventListener s)"
  by (auto simp: w_cleanUp_def fold_off off_def)

lemma w_handle_topics: "w_topics s \<Longrightarrow> w_topics (w_handle h s)"
  using w_cleanUp_listeners [of "w_reject (w_owner h) None (s\<lparr>w_isModalOpen := False\<rparr>)"]
  by (cases h)
    (auto simp: w_topics_def w_reject_def w_resolveWallet_def w_cleanUp_def Let_def)

lemma w_handlers_topics: "w_topics s \<Longrightarrow> w_topics (fold w_handle hs s)"
  by (induction hs arbitrary: s) (simp_all add: w_handle_topics)

lemma w_connectHandler_topics: "w_topics s \<Longrightarrow> w_topics (w_connectHandler r walletInfo err s)"
  by (cases err) (simp_all add: w_topics_def w_connectHandler_def w_reject_def w_resolveWallet_def)

lemma w_connectHandlers_topics:
  "w_topics s \<Longrightarrow> w_topics (fold (\<lambda>h. w_connectHandler c (snd h) err) hs s)"
  by (induction hs arbitrary: s) (simp_all add: w_connectHandler_topics)

lemma w_step_topics:
  assumes "w_topics s"
  shows "w_topics (w_step ev s)"
proof (cases ev)
  case GetWallet
  with assms show ?thesis
    by (auto simp: w_topics_def getWallet_def w_resolve_def w_resolveWallet_def w_prompt_def
        fold_on on_def Let_def split: option.splits)
next
  case (WalletSettles n outcome)
  show ?thesis
  proof (cases "n < length (w_pending s)")
    case False
    with assms WalletSettles show ?thesis by (simp add: w_walletSettles_def)
  next
    case True
    obtain walletInfo r resolver where p: "w_pending s ! n = ResolveWallet walletInfo r resolver"
      by (cases "w_pending s ! n")
    let ?s1 = "s\<lparr>w_pending := take n (w_pending s) @ drop (Suc n) (w_pending s)\<rparr>"
    show ?thesis
    proof (cases outcome)
      case (Resolve wallet)
      with assms WalletSettles True p
        w_cleanUp_listeners [of "?s1\<lparr>w_lastUsedWallet := wallet,
          w_connectionType := Some (wi_id walletInfo)\<rparr>"]
      show ?thesis
        by (auto simp: w_topics_def w_walletSettles_def w_resolve_def w_cleanUp_def)
    next
      case (Reject e)
      with assms WalletSettles True p show ?thesis
        by (auto simp: w_topics_def w_walletSettles_def w_reject_def)
    qed
  qed
next
  case (WalletConnectEvent c err)
  show ?thesis
  proof (cases "w_connected s c")
    case None
    with assms WalletConnectEvent show ?thesis by (simp add: w_connect_def)
  next
    case (Some b)
    let ?s1 = "if err = None then s\<lparr>w_connected := (w_connected s)(c \<mapsto> True)\<rparr> else s"
    from assms have "w_topics (?s1\<lparr>w_onConnect := filter (\<lambda>h. fst h \<noteq> c) (w_onConnect ?s1)\<rparr>)"
      by (simp add: w_topics_def)
    then have "w_topics (fold (\<lambda>h. w_connectHandler c (snd h) err)
        (filter (\<lambda>h. fst h = c) (w_onConnect ?s1))
        (?s1\<lparr>w_onConnect := filter (\<lambda>h. fst h \<noteq> c) (w_onConnect ?s1)\<rparr>))"
      by (rule w_connectHandlers_topics)
    with Some WalletConnectEvent show ?thesis
      by (simp add: w_connect_def Let_def)
  qed
next
  case (WalletQrOpen c uri)
  with assms show ?thesis by (auto simp: w_topics_def w_qrOpen_def split: option.splits)
next
  case (WalletQrClose c)
  with assms show ?thesis by (auto simp: w_topics_def w_qrClose_def split: option.splits)
next
  case ClearLastUsedWallet
  with assms show ?thesis by (auto simp: w_topics_def clearLastUsedWallet_def)
next
  case (SetDefaultWalletType t)
  with assms show ?thesis by (auto simp: w_topics_def w_setDefaultConnectionType_def)
next
  case (WalletStoredSession b)
  with assms show ?thesis by (auto simp: w_topics_def)
qed (use assms in \<open>simp_all add: w_emit_def w_handlers_topics\<close>)

lemma w_run_topics: "w_topics s \<Longrightarrow> w_topics (w_run es s)"
  unfolding w_run_def by (induction es arbitrary: s) (simp_all add: w_step_topics)

lemma w_topics_init: "w_topics (w_init walletInfoList window connected)"
  by (simp add: w_topics_def w_init_def)

lemma w_cleanUp_list: "w_walletInfoList (w_cleanUp s) = w_walletInfoList s"
  by (simp add: w_cleanUp_def)

lemma w_handle_list: "w_walletInfoList (w_handle h s) = w_walletInfoList s"
  by (cases h) (simp_all add: w_cleanUp_def w_reject_def w_resolveWallet_def Let_def)

lemma w_handlers_list: "w_walletInfoList (fold w_handle hs s) = w_walletInfoList s"
  by (induction hs arbitrary: s) (simp_all add: w_handle_list)

lemma w_connectHandlers_list:
  "w_walletInfoList (fold (\<lambda>h. w_connectHandler c (snd h) err) hs s) = w_walletInfoList s"
  by (induction hs arbitrary: s)
    (simp_all add: w_connectHandler_def w_reject_def w_resolveWallet_def split: option.splits)

lemma w_resume_list: "w_walletInfoList (w_resume p outcome s) = w_walletInfoList s"
  by (cases p; cases outcome) (simp_all add: w_resolve_def w_reject_def w_cleanUp_def)

lemma w_step_list: "w_walletInfoList (w_step ev s) = w_walletInfoList s"
  by (cases ev)
    (simp_all add: getWallet_def w_resolve_def w_resolveWallet_def w_prompt_def Let_def
      clearLastUsedWallet_def w_setDefaultConnectionType_def w_emit_def w_handlers_list
      w_walletSettles_def w_resume_list w_qrOpen_def w_qrClose_def w_connect_def
      w_connectHandlers_list split: option.splits)

lemma w_run_list: "w_walletInfoList (w_run es s) = w_walletInfoList s"
  unfolding w_run_def by (induction es arbitrary: s) (simp_all add: w_step_list)

lemma k_qr_handlers:
  assumes "\<forall>h \<in> set hs. k_topic h = ''wc_qr_modal_close''"
  shows "fold k_handle hs s =
           s\<lparr>k_wcUri := (if hs = [] then k_wcUri s else []),
             k_cancelHook := k_cancelHook s @
               List.map_filter (\<lambda>h. k_callbackClosed s (k_owner h)) hs\<rparr>"
  using assms
proof (induction hs arbitrary: s)
  case Nil
  then show ?case by (simp add: List.map_filter_simps)
next
  case (Cons h hs)
  from Cons.prems obtain r where h: "h = K_wc_qr_modal_close r"
    by (cases h) simp_all
  from Cons.prems have "\<forall>h' \<in> set hs. k_topic h' = ''wc_qr_modal_close''"
    by simp
  note IH = Cons.IH [OF this]
  show ?case
    by (cases "k_callbackClosed s r") (simp_all add: h IH List.map_filter_simps)
qed

lemma w_qr_handlers:
  assumes "\<forall>h \<in> set hs. w_topic h = ''wc_qr_modal_close'' \<and> w_known (w_walletInfoList s) h"
    and "''wc_qr_modal_close'' \<notin> wi_id ` set (w_walletInfoList s)"
  shows "fold w_handle hs s =
           s\<lparr>w_wcUri := (if hs = [] then w_wcUri s else []),
             w_cancelHook := w_cancelHook s @ filter (w_callbackClosed s) (map w_owner hs)\<rparr>"
  using assms
proof (induction hs arbitrary: s)
  case Nil
  then show ?case by simp
next
  case (Cons h hs)
  from Cons.prems obtain r where h: "h = W_wc_qr_modal_close r"
    by (cases h) (auto simp: image_iff)
  let ?s1 = "w_handle h s"
  from Cons.prems have "\<forall>h' \<in> set hs. w_topic h' = ''wc_qr_modal_close'' \<and>
      w_known (w_walletInfoList ?s1) h'"
    "''wc_qr_modal_close'' \<notin> wi_id ` set (w_walletInfoList ?s1)"
    by (simp_all add: h Let_def)
  note IH = Cons.IH [OF this]
  show ?case
    using IH by (cases "w_callbackClosed s r") (simp_all add: h Let_def)
qed

subsection \<open>Listeners of other requests\<close>





section \<open>Broadcast responses\<close>

text \<open>
  Claim C8. When the chain is known and the endpoint answers, \<open>sendTxWC\<close> reads the
  transaction response \<open>r\<close> of the answer. With a code that is absent or \<open>0\<close> it returns
  the bytes decoded from the hexadecimal text of the hash the response carries; with any
  other code it raises an error with the response's raw log; and it returns bytes only
  when the code is absent or \<open>0\<close>.
\<close>

theorem sendTxWC_code:
  assumes chain: "find (\<lambda>chain. ci_chainId chain = chainId) EmbedChainInfos = Some chain"
    and posted: "post (ci_rest chain) (postPath t) (mkParams t m) = Inr d"
    and resp: "selectResponse t d = Some r"
  shows "((tr_code r = None \<or> tr_code r = Some 0) \<and> tr_txhash r = Some h \<longrightarrow>
            sendTxWC EmbedChainInfos post chainId t m = Inr (hexDecode h))
       \<and> (tr_code r \<noteq> None \<and> tr_code r \<noteq> Some 0 \<longrightarrow>
            sendTxWC EmbedChainInfos post chainId t m = Inl (Error (tr_raw_log r)))
       \<and> ((\<exists>bs. sendTxWC EmbedChainInfos post chainId t m = Inr bs) \<longrightarrow>
            tr_code r = None \<or> tr_code r = Some 0)"
  using chain posted resp
  by (auto simp: sendTxWC_def readResponse_def split: option.splits)

text \<open>The two answers of scenario C of the specification: \<open>{code: 0, txhash: "AA11"}\<close>
  to an amino transaction, and \<open>{code: 5, raw_log: "insufficient funds"}\<close> to a protobuf
  one.\<close>

theorem sendTxWC_scenario_C:
  "sendTxWC [\<lparr>ci_chainId = ''cosmoshub-4'', ci_rest = ''https://lcd''\<rparr>]
     (\<lambda>url path ps. Inr \<lparr>rd_direct = \<lparr>tr_code = Some 0, tr_raw_log = [], tr_txhash = Some ''AA11''\<rparr>,
                          rd_tx_response = None\<rparr>)
     ''cosmoshub-4'' (StdTx ''signed'') ''sync'' = Inr [0xAA, 0x11]
   \<and> sendTxWC [\<lparr>ci_chainId = ''cosmoshub-4'', ci_rest = ''https://lcd''\<rparr>]
     (\<lambda>url path ps. Inr \<lparr>rd_direct = \<lparr>tr_code = None, tr_raw_log = [], tr_txhash = None\<rparr>,
                          rd_tx_response = Some \<lparr>tr_code = Some 5, tr_raw_log = ''insufficient funds'',
                                                  tr_txhash = None\<rparr>\<rparr>)
     ''cosmoshub-4'' (TxBytes [1, 2, 3]) ''block'' = Inl (Error ''insufficient funds'')"
proof -
  let ?chain = "\<lparr>ci_chainId = ''cosmoshub-4'', ci_rest = ''https://lcd''\<rparr>"
  have found: "find (\<lambda>chain. ci_chainId chain = ''cosmoshub-4'') [?chain] = Some ?chain"
    by simp
  have decoded: "hexDecode ''AA11'' = [0xAA, 0x11]"
    by (simp add: hexDigit_def)
  show ?thesis
    using sendTxWC_code [OF found, where t = "StdTx ''signed''" and m = "''sync''"
        and post = "\<lambda>url path ps. Inr \<lparr>rd_direct = \<lparr>tr_code = Some 0, tr_raw_log = [], tr_txhash = Some ''AA11''\<rparr>,
                          rd_tx_response = None\<rparr>" and h = "''AA11''"]
      sendTxWC_code [OF found, where t = "TxBytes [1, 2, 3]" and m = "''block''"
        and post = "\<lambda>url path ps. Inr \<lparr>rd_direct = \<lparr>tr_code = None, tr_raw_log = [], tr_txhash = None\<rparr>,
                          rd_tx_response = Some \<lparr>tr_code = Some 5, tr_raw_log = ''insufficient funds'',
                                                  tr_txhash = None\<rparr>\<rparr>"]
      decoded
    by (simp add: selectResponse_def isProtoTx_def)
qed

section \<open>Clearing the cache\<close>

text \<open>
  Claim C9. \<open>clearLastUsedKeplr\<close> and \<open>clearLastUsedWallet\<close> empty the cache and reset
  \<open>connectionType\<close>, change nothing else (the stored preference in particular), and
  calling them twice is the same as calling them once, in every state.
\<close>

theorem clearLastUsed_clears_cache_only:
  "clearLastUsedKeplr s = s\<lparr>k_lastUsedKeplr := None, k_connectionType := None\<rparr>
   \<and> k_defaultConnectionType (clearLastUsedKeplr s) = k_defaultConnectionType s
   \<and> clearLastUsedKeplr (clearLastUsedKeplr s) = clearLastUsedKeplr s
   \<and> k_run [ClearLastUsedKeplr, ClearLastUsedKeplr] s = k_run [ClearLastUsedKeplr] s
   \<and> clearLastUsedWallet t = t\<lparr>w_lastUsedWallet := None, w_connectionType := None\<rparr>
   \<and> w_defaultConnectionType (clearLastUsedWallet t) = w_defaultConnectionType t
   \<and> clearLastUsedWallet (clearLastUsedWallet t) = clearLastUsedWallet t
   \<and> w_run [ClearLastUsedWallet, ClearLastUsedWallet] t = w_run [ClearLastUsedWallet] t"
  by (simp add: clearLastUsedKeplr_def clearLastUsedWallet_def k_run_def w_run_def)

theorem clearLastUsed_after_scenario_A:
  "k_lastUsedKeplr (k_run [GetKeplr, SelectExtension, ProbeSettles (Some (WindowKeplr 7))]
      k_mounted) = Some (WindowKeplr 7)
   \<and> k_lastUsedKeplr (clearLastUsedKeplr (k_run [GetKeplr, SelectExtension,
        ProbeSettles (Some (WindowKeplr 7))] k_mounted)) = None
   \<and> k_connectionType (clearLastUsedKeplr (k_run [GetKeplr, SelectExtension,
        ProbeSettles (Some (WindowKeplr 7))] k_mounted)) = None"
  using clearLastUsed_clears_cache_only
    [of "k_run [GetKeplr, SelectExtension, ProbeSettles (Some (WindowKeplr 7))] k_mounted"]
  by (simp add: k_run_def getKeplr_def k_prompt_def k_emit_def on_def off_def listenersOf_def
      k_resolve_def k_cleanUp_def k_probeSettles_def k_mounted_def k_init_def Let_def)

section \<open>No \<open>window\<close>\<close>

text \<open>
  Claim C10. Where \<open>window\<close> is not defined, a call of \<open>getKeplr\<close> or \<open>getWallet\<close> returns
  a promise that is resolved with \<open>undefined\<close>, and nothing else changes: no dialog is
  shown, no listener is registered, and the cache, the preference and \<open>connectionType\<close>
  are as before.
\<close>

theorem no_window_resolves_undefined:
  assumes "\<not> k_window s" and "\<not> w_window t"
  shows "getKeplr s =
           s\<lparr>k_settled := (k_settled s)(k_nextRid s := [Resolve None]),
             k_nextRid := Suc (k_nextRid s)\<rparr>
       \<and> promiseState (k_settled (getKeplr s) (k_nextRid s)) = Settled (Resolve None)
       \<and> getWallet t =
           t\<lparr>w_settled := (w_settled t)(w_nextRid t := [Resolve None]),
             w_nextRid := Suc (w_nextRid t)\<rparr>
       \<and> promiseState (w_settled (getWallet t) (w_nextRid t)) = Settled (Resolve None)"
  using assms
  by (simp add: getKeplr_def getWallet_def k_resolve_def w_resolve_def promiseState_def Let_def)

theorem no_window_server_side:
  "k_settled (getKeplr (k_init False True)) 0 = [Resolve None]
   \<and> k_isModalOpen (getKeplr (k_init False True)) = False
   \<and> k_eventListener (getKeplr (k_init False True)) = []
   \<and> w_settled (getWallet (w_init [extensionInfo, walletconnectInfo] False True)) 0 = [Resolve None]
   \<and> w_isModalOpen (getWallet (w_init [extensionInfo, walletconnectInfo] False True)) = False
   \<and> w_eventListener (getWallet (w_init [extensionInfo, walletconnectInfo] False True)) = []"
proof -
  have k: "\<not> k_window (k_init False True)"
    by (simp add: k_init_def)
  have w: "\<not> w_window (w_init [extensionInfo, walletconnectInfo] False True)"
    by (simp add: w_init_def)
  show ?thesis
    using no_window_resolves_undefined [OF k w]
    by (simp add: k_init_def w_init_def)
qed

section \<open>Settling a request\<close>

text \<open>
  Claim C1, as amended. Take a provider in which no request is in flight and let one
  request run along one path, with nothing else happening. On the cache hit, the
  preference hit, the dismissal of the selection dialog, the selection of the extension,
  the reuse of a connected session, and the success and the failure of a pairing,
  \<open>resolve\<close> or \<open>reject\<close> is invoked exactly once, once the awaited probe, resolver or
  \<open>connect\<close> event has arrived. When the pairing dialog is dismissed neither is invoked, and
  neither is when, in \<open>GetWalletProvider\<close>, the resolver of a selected wallet rejects: the
  promise stays pending.
\<close>

theorem request_settles_once_on_completed_paths:
  fixes v :: "keplr option" and x :: "wallet option" and e :: string
  assumes ks: "k_idle s" and wt: "w_idle t"
    and wx: "wx \<in> set (w_walletInfoList t)" "\<not> startsWith (wi_id wx) ''walletconnect''"
    and wr: "wr \<in> set (w_walletInfoList t)" "startsWith (wi_id wr) ''walletconnect''"
    and uri: "uri \<noteq> []"
  shows
    "k_settled (k_run [GetKeplr] (s\<lparr>k_lastUsedKeplr := Some k\<rparr>)) (k_nextRid s) = [Resolve (Some k)]
   \<and> k_settled (k_run [SetDefaultConnectionType (Some Extension), GetKeplr, ProbeSettles v] s)
       (k_nextRid s) = [Resolve v]
   \<and> k_settled (k_run [SetDefaultConnectionType (Some WalletConnect), StoredSession True, GetKeplr] s)
       (k_nextRid s) = [Resolve (Some (KeplrWalletConnectV1 (k_nextCid s)))]
   \<and> k_settled (k_run (k_prompted @ [CloseSelectModal]) s) (k_nextRid s) = [Reject None]
   \<and> k_settled (k_run (k_prompted @ [SelectExtension, ProbeSettles v]) s) (k_nextRid s) = [Resolve v]
   \<and> k_settled (k_run [SetDefaultConnectionType None, StoredSession True, GetKeplr,
         SelectWalletConnect] s) (k_nextRid s) = [Resolve (Some (KeplrWalletConnectV1 (k_nextCid s)))]
   \<and> k_settled (k_run (k_pairing (k_nextCid s) uri @ [ConnectEvent (k_nextCid s) None]) s)
       (k_nextRid s) = [Resolve (Some (KeplrWalletConnectV1 (k_nextCid s)))]
   \<and> k_settled (k_run (k_pairing (k_nextCid s) uri @ [ConnectEvent (k_nextCid s) (Some e)]) s)
       (k_nextRid s) = [Reject (Some e)]
   \<and> k_settled (k_run (k_pairing (k_nextCid s) uri @ [CloseQRModal]) s) (k_nextRid s) = []
   \<and> w_settled (w_run [GetWallet] (t\<lparr>w_lastUsedWallet := Some w\<rparr>)) (w_nextRid t) = [Resolve (Some w)]
   \<and> w_settled (w_run [SetDefaultWalletType (Some (wi_id wx)), GetWallet, WalletSettles 0 (Resolve x)] t)
       (w_nextRid t) = [Resolve x]
   \<and> w_settled (w_run [SetDefaultWalletType (Some (wi_id wx)), GetWallet,
         WalletSettles 0 (Reject (Some e))] t) (w_nextRid t) = [Reject (Some e)]
   \<and> w_settled (w_run (w_prompted @ [CloseSelectWalletModal]) t) (w_nextRid t) = [Reject None]
   \<and> w_settled (w_run (w_prompted @ [SelectWallet (wi_id wx), WalletSettles 0 (Resolve x)]) t)
       (w_nextRid t) = [Resolve x]
   \<and> w_settled (w_run (w_prompted @ [SelectWallet (wi_id wx), WalletSettles 0 (Reject (Some e))]) t)
       (w_nextRid t) = []
   \<and> w_settled (w_run [SetDefaultWalletType None, WalletStoredSession True, GetWallet,
         SelectWallet (wi_id wr), WalletSettles 0 (Resolve x)] t) (w_nextRid t) = [Resolve x]
   \<and> w_settled (w_run (w_pairing (wi_id wr) (w_nextRid t) uri @
         [WalletConnectEvent (w_nextRid t) None, WalletSettles 0 (Resolve x)]) t) (w_nextRid t)
       = [Resolve x]
   \<and> w_settled (w_run (w_pairing (wi_id wr) (w_nextRid t) uri @
         [WalletConnectEvent (w_nextRid t) (Some e)]) t) (w_nextRid t) = [Reject (Some e)]
   \<and> w_settled (w_run (w_pairing (wi_id wr) (w_nextRid t) uri @ [CloseWalletQRModal]) t)
       (w_nextRid t) = []"
proof -
  note ids = w_id_facts [OF wt wx(1)] w_id_facts [OF wt wr(1)]
  note k = k_idleD [OF ks]
  note w = w_idleD [OF wt]
  show ?thesis
    by (intro conjI) (simp_all add: k chan_defs k_defs w w_defs ids wx wr uri)
qed


text \<open>The claim on the two mounted providers.\<close>

theorem request_settles_once_mounted:
  "k_settled (k_run (k_prompted @ [SelectExtension, ProbeSettles (Some (WindowKeplr 7))]) k_mounted) 0
     = [Resolve (Some (WindowKeplr 7))]
   \<and> k_settled (k_run (k_pairing 0 ''wc:abc123'' @ [ConnectEvent 0 (Some ''rejected'')]) k_mounted) 0
     = [Reject (Some ''rejected'')]
   \<and> k_settled (k_run (k_pairing 0 ''wc:abc123'' @ [CloseQRModal]) k_mounted) 0 = []
   \<and> w_settled (w_run (w_prompted @ [SelectWallet ''extension'', WalletSettles 0 (Resolve (Some 7))])
        w_mounted) 0 = [Resolve (Some 7)]
   \<and> w_settled (w_run (w_pairing ''walletconnect'' 0 ''wc:abc123'' @ [CloseWalletQRModal]) w_mounted) 0
     = []"
  using request_settles_once_on_completed_paths
    [OF k_mounted_idle w_mounted_idle w_mounted_wallets, of "''wc:abc123''"
      "WindowKeplr 7" "Some (WindowKeplr 7)" "''rejected''" 7 "Some 7"]
  by (simp add: mounted_ids)

text \<open>
  The claim as stated fails in \<open>GetKeplrProvider\<close>. When the pairing dialog, which shows
  the issued URI, is dismissed, neither \<open>resolve\<close> nor \<open>reject\<close> is invoked. And when the
  selection dialog, still open after the remote method was picked, is dismissed before
  the URI is issued and the pairing succeeds afterwards, \<open>reject\<close> and then \<open>resolve\<close> are
  invoked for the same request.
\<close>

theorem request_settles_never_or_twice:
  "k_wcUri (k_run (k_pairing 0 ''wc:abc123'') k_mounted) = ''wc:abc123''
   \<and> k_settled (k_run (k_pairing 0 ''wc:abc123'' @ [CloseQRModal]) k_mounted) 0 = []
   \<and> k_isModalOpen (k_run [GetKeplr, SelectWalletConnect] k_mounted)
   \<and> k_settled (k_run [GetKeplr, SelectWalletConnect, CloseSelectModal,
        QrcodeModalOpen 0 ''wc:abc123'', ConnectEvent 0 None] k_mounted) 0
       = [Reject None, Resolve (Some (KeplrWalletConnectV1 0))]"
  by (simp add: k_mounted_defs chan_defs k_defs)

section \<open>Dismissing the pairing dialog\<close>

text \<open>
  Claim C3, as amended. In every state that a provider reaches from its mounting, a
  dismissal of the pairing dialog rejects no request and changes nothing but the URI
  shown and the log of the calls of cancel callbacks: the logs of all promises, the cache,
  \<open>connectionType\<close> and the registered listeners stay as they were. When a listener of
  \<open>wc_qr_modal_close\<close> is registered, the dialog is hidden, and the cancel callback is
  called for each such listener whose call holds one. When none is registered (a
  \<open>cleanUp\<close> has removed it, or the request took the preference path of \<open>getWallet\<close>,
  which registers none), the dismissal changes nothing and the URI stays shown. (For
  \<open>GetWalletProvider\<close> no wallet id is the topic \<open>wc_qr_modal_close\<close>.)

  On the pairing path of a request made in an idle provider the listener is registered:
  the dismissal hides the dialog and calls the connector's cancel callback once; the
  request stays pending with its listeners registered, and it is still resolved if the
  connector reports a connection afterwards (in \<open>getWallet\<close>, once the resolver of the
  selected wallet has fulfilled). A listener whose call holds no cancel callback only
  hides the dialog.
\<close>

theorem pairing_dismissal_hides_and_cancels:
  assumes ks: "k_idle s" and wt: "w_idle t"
    and wr: "wr \<in> set (w_walletInfoList t)" "startsWith (wi_id wr) ''walletconnect''"
    and uri: "uri \<noteq> []"
    and topic: "''wc_qr_modal_close'' \<notin> wi_id ` set walletInfoList"
  shows
    "k_step CloseQRModal (k_run es (k_init window connected)) =
       (if k_wcUri (k_run es (k_init window connected)) = []
        then k_run es (k_init window connected)
        else (k_run es (k_init window connected))
          \<lparr>k_wcUri :=
             (if listenersOf ''wc_qr_modal_close''
                   (k_eventListener (k_run es (k_init window connected))) = []
              then k_wcUri (k_run es (k_init window connected)) else []),
           k_cancelHook := k_cancelHook (k_run es (k_init window connected)) @
             List.map_filter
               (\<lambda>h. k_callbackClosed (k_run es (k_init window connected)) (k_owner h))
               (listenersOf ''wc_qr_modal_close''
                 (k_eventListener (k_run es (k_init window connected))))\<rparr>)
   \<and> w_step CloseWalletQRModal (w_run ws (w_init walletInfoList window' connected')) =
       (if w_wcUri (w_run ws (w_init walletInfoList window' connected')) = []
        then w_run ws (w_init walletInfoList window' connected')
        else (w_run ws (w_init walletInfoList window' connected'))
          \<lparr>w_wcUri :=
             (if listenersOf ''wc_qr_modal_close''
                   (w_eventListener (w_run ws (w_init walletInfoList window' connected'))) = []
              then w_wcUri (w_run ws (w_init walletInfoList window' connected')) else []),
           w_cancelHook := w_cancelHook (w_run ws (w_init walletInfoList window' connected')) @
             filter (w_callbackClosed (w_run ws (w_init walletInfoList window' connected')))
               (map w_owner (listenersOf ''wc_qr_modal_close''
                 (w_eventListener (w_run ws (w_init walletInfoList window' connected')))))\<rparr>)
   \<and> k_wcUri (k_run (k_pairing (k_nextCid s) uri) s) = uri
   \<and> k_wcUri (k_run (k_pairing (k_nextCid s) uri @ [CloseQRModal]) s) = []
   \<and> k_cancelHook (k_run (k_pairing (k_nextCid s) uri @ [CloseQRModal]) s)
       = k_cancelHook s @ [k_nextCid s]
   \<and> k_lastUsedKeplr (k_run (k_pairing (k_nextCid s) uri @ [CloseQRModal]) s) = None
   \<and> k_connectionType (k_run (k_pairing (k_nextCid s) uri @ [CloseQRModal]) s)
       = k_connectionType s
   \<and> promiseState (k_settled (k_run (k_pairing (k_nextCid s) uri @ [CloseQRModal]) s)
       (k_nextRid s)) = Pending
   \<and> k_eventListener (k_run (k_pairing (k_nextCid s) uri @ [CloseQRModal]) s)
       = [(''modal_close'', K_modal_close (k_nextRid s)),
          (''select_extension'', K_select_extension (k_nextRid s)),
          (''select_wallet_connect'', K_select_wallet_connect (k_nextRid s)),
          (''wc_qr_modal_close'', K_wc_qr_modal_close (k_nextRid s))]
   \<and> k_settled (k_run (k_pairing (k_nextCid s) uri @ [CloseQRModal, ConnectEvent (k_nextCid s) None]) s)
       (k_nextRid s) = [Resolve (Some (KeplrWalletConnectV1 (k_nextCid s)))]
   \<and> w_wcUri (w_run (w_pairing (wi_id wr) (w_nextRid t) uri) t) = uri
   \<and> w_wcUri (w_run (w_pairing (wi_id wr) (w_nextRid t) uri @ [CloseWalletQRModal]) t) = []
   \<and> w_cancelHook (w_run (w_pairing (wi_id wr) (w_nextRid t) uri @ [CloseWalletQRModal]) t)
       = w_cancelHook t @ [w_nextRid t]
   \<and> w_lastUsedWallet (w_run (w_pairing (wi_id wr) (w_nextRid t) uri @ [CloseWalletQRModal]) t)
       = None
   \<and> w_connectionType (w_run (w_pairing (wi_id wr) (w_nextRid t) uri @ [CloseWalletQRModal]) t)
       = w_connectionType t
   \<and> promiseState (w_settled (w_run (w_pairing (wi_id wr) (w_nextRid t) uri @
         [CloseWalletQRModal]) t) (w_nextRid t)) = Pending
   \<and> w_eventListener (w_run (w_pairing (wi_id wr) (w_nextRid t) uri @ [CloseWalletQRModal]) t)
       = [(''modal_close'', W_modal_close (w_nextRid t)),
          (''wc_qr_modal_close'', W_wc_qr_modal_close (w_nextRid t))] @
         map (\<lambda>walletInfo. (wi_id walletInfo, W_select (w_nextRid t) walletInfo))
           (w_walletInfoList t)
   \<and> w_settled (w_run (w_pairing (wi_id wr) (w_nextRid t) uri @
         [CloseWalletQRModal, WalletConnectEvent (w_nextRid t) None,
          WalletSettles 0 (Resolve w1)]) t) (w_nextRid t) = [Resolve w1]
   \<and> (k_callbackClosed s0 r0 = None \<longrightarrow>
        k_handle (K_wc_qr_modal_close r0) s0 = s0\<lparr>k_wcUri := []\<rparr>)
   \<and> (\<not> w_callbackClosed t0 r0 \<longrightarrow>
        w_handle (W_wc_qr_modal_close r0) t0 = t0\<lparr>w_wcUri := []\<rparr>)"
proof -
  let ?s = "k_run es (k_init window connected)"
  let ?t = "w_run ws (w_init walletInfoList window' connected')"
  have "k_inv ?s"
    by (simp add: k_run_inv k_inv_init)
  then have "\<forall>h \<in> set (listenersOf ''wc_qr_modal_close'' (k_eventListener ?s)).
      k_topic h = ''wc_qr_modal_close''"
    by (auto simp: k_inv_def listenersOf_def)
  note kq = k_qr_handlers [OF this]
  have l: "w_walletInfoList ?t = walletInfoList"
    by (simp add: w_run_list w_init_def)
  have "w_topics ?t"
    by (simp add: w_run_topics w_topics_init)
  then have "\<forall>h \<in> set (listenersOf ''wc_qr_modal_close'' (w_eventListener ?t)).
      w_topic h = ''wc_qr_modal_close'' \<and> w_known (w_walletInfoList ?t) h"
    by (auto simp: w_topics_def listenersOf_def)
  from w_qr_handlers [OF this] topic l
  have wq: "fold w_handle (listenersOf ''wc_qr_modal_close'' (w_eventListener ?t)) ?t =
      ?t\<lparr>w_wcUri := (if listenersOf ''wc_qr_modal_close'' (w_eventListener ?t) = []
                      then w_wcUri ?t else []),
         w_cancelHook := w_cancelHook ?t @ filter (w_callbackClosed ?t)
           (map w_owner (listenersOf ''wc_qr_modal_close'' (w_eventListener ?t)))\<rparr>"
    by simp
  have general:
    "k_step CloseQRModal ?s =
       (if k_wcUri ?s = [] then ?s
        else ?s\<lparr>k_wcUri := (if listenersOf ''wc_qr_modal_close'' (k_eventListener ?s) = []
                              then k_wcUri ?s else []),
                k_cancelHook := k_cancelHook ?s @
                  List.map_filter (\<lambda>h. k_callbackClosed ?s (k_owner h))
                    (listenersOf ''wc_qr_modal_close'' (k_eventListener ?s))\<rparr>)"
    "w_step CloseWalletQRModal ?t =
       (if w_wcUri ?t = [] then ?t
        else ?t\<lparr>w_wcUri := (if listenersOf ''wc_qr_modal_close'' (w_eventListener ?t) = []
                              then w_wcUri ?t else []),
                w_cancelHook := w_cancelHook ?t @ filter (w_callbackClosed ?t)
                  (map w_owner (listenersOf ''wc_qr_modal_close'' (w_eventListener ?t)))\<rparr>)"
    by (simp_all add: k_emit_def w_emit_def kq wq)
  note ids = w_id_facts [OF wt wr(1)]
  note k = k_idleD [OF ks]
  note w = w_idleD [OF wt]
  show ?thesis
    apply (intro conjI)
    subgoal by (rule general(1))
    subgoal by (rule general(2))
    by (simp_all add: k chan_defs k_defs w w_defs ids wr uri)
qed

text \<open>
  Scenario B of the specification in both providers, with the connection that follows
  in \<open>getWallet\<close>; and two dismissals with no listener registered, which change nothing:
  in \<open>getKeplr\<close> after the selection dialog was dismissed while the connector was
  creating the session, in \<open>getWallet\<close> on the preference path.
\<close>

theorem pairing_dismissal_mounted:
  "k_wcUri (k_run (k_pairing 0 ''wc:abc123'' @ [CloseQRModal]) k_mounted) = []
   \<and> k_cancelHook (k_run (k_pairing 0 ''wc:abc123'' @ [CloseQRModal]) k_mounted) = [0]
   \<and> k_lastUsedKeplr (k_run (k_pairing 0 ''wc:abc123'' @ [CloseQRModal]) k_mounted) = None
   \<and> w_wcUri (w_run (w_pairing ''walletconnect'' 0 ''wc:abc123'' @ [CloseWalletQRModal]) w_mounted)
       = []
   \<and> w_cancelHook (w_run (w_pairing ''walletconnect'' 0 ''wc:abc123'' @ [CloseWalletQRModal])
       w_mounted) = [0]
   \<and> w_settled (w_run (w_pairing ''walletconnect'' 0 ''wc:abc123'' @
         [CloseWalletQRModal, WalletConnectEvent 0 None, WalletSettles 0 (Resolve (Some 7))])
       w_mounted) 0 = [Resolve (Some 7)]
   \<and> k_step CloseQRModal (k_run [GetKeplr, SelectWalletConnect, CloseSelectModal,
         QrcodeModalOpen 0 ''wc:abc123''] (k_init True False))
       = k_run [GetKeplr, SelectWalletConnect, CloseSelectModal, QrcodeModalOpen 0 ''wc:abc123'']
           (k_init True False)
   \<and> k_wcUri (k_run [GetKeplr, SelectWalletConnect, CloseSelectModal,
         QrcodeModalOpen 0 ''wc:abc123''] (k_init True False)) = ''wc:abc123''
   \<and> w_step CloseWalletQRModal (w_run [SetDefaultWalletType (Some ''walletconnect''), GetWallet,
         WalletQrOpen 0 ''wc:abc123''] (w_init [extensionInfo, walletconnectInfo] True False))
       = w_run [SetDefaultWalletType (Some ''walletconnect''), GetWallet,
           WalletQrOpen 0 ''wc:abc123''] (w_init [extensionInfo, walletconnectInfo] True False)
   \<and> w_wcUri (w_run [SetDefaultWalletType (Some ''walletconnect''), GetWallet,
         WalletQrOpen 0 ''wc:abc123''] (w_init [extensionInfo, walletconnectInfo] True False))
       = ''wc:abc123''"
proof -
  let ?es = "[GetKeplr, SelectWalletConnect, CloseSelectModal, QrcodeModalOpen 0 ''wc:abc123'']"
  let ?ws = "[SetDefaultWalletType (Some ''walletconnect''), GetWallet,
         WalletQrOpen 0 ''wc:abc123'']"
  have topic: "''wc_qr_modal_close'' \<notin> wi_id ` set [extensionInfo, walletconnectInfo]"
    by (simp add: extensionInfo_def walletconnectInfo_def)
  have k: "k_wcUri (k_run ?es (k_init True False)) = ''wc:abc123''"
    "listenersOf ''wc_qr_modal_close'' (k_eventListener (k_run ?es (k_init True False))) = []"
    by (simp_all add: k_init_def chan_defs k_defs)
  have w: "w_wcUri (w_run ?ws (w_init [extensionInfo, walletconnectInfo] True False)) = ''wc:abc123''"
    "listenersOf ''wc_qr_modal_close''
       (w_eventListener (w_run ?ws (w_init [extensionInfo, walletconnectInfo] True False))) = []"
    by (simp_all add: w_init_def extensionInfo_def walletconnectInfo_def chan_defs w_defs)
  note inst = pairing_dismissal_hides_and_cancels
    [OF k_mounted_idle w_mounted_idle w_mounted_wallets(3,4) _ topic,
      of "''wc:abc123''" ?es True False ?ws True False "Some 7"]
  have paths: "k_wcUri (k_run (k_pairing 0 ''wc:abc123'' @ [CloseQRModal]) k_mounted) = []"
    "k_cancelHook (k_run (k_pairing 0 ''wc:abc123'' @ [CloseQRModal]) k_mounted) = [0]"
    "k_lastUsedKeplr (k_run (k_pairing 0 ''wc:abc123'' @ [CloseQRModal]) k_mounted) = None"
    "w_wcUri (w_run (w_pairing ''walletconnect'' 0 ''wc:abc123'' @ [CloseWalletQRModal]) w_mounted)
       = []"
    "w_cancelHook (w_run (w_pairing ''walletconnect'' 0 ''wc:abc123'' @ [CloseWalletQRModal])
       w_mounted) = [0]"
    "w_settled (w_run (w_pairing ''walletconnect'' 0 ''wc:abc123'' @
         [CloseWalletQRModal, WalletConnectEvent 0 None, WalletSettles 0 (Resolve (Some 7))])
       w_mounted) 0 = [Resolve (Some 7)]"
    using inst by (simp_all add: mounted_ids k_mounted_defs w_mounted_defs)
  have "k_step CloseQRModal (k_run ?es (k_init True False)) = k_run ?es (k_init True False)"
    "w_step CloseWalletQRModal (w_run ?ws (w_init [extensionInfo, walletconnectInfo] True False))
       = w_run ?ws (w_init [extensionInfo, walletconnectInfo] True False)"
    using inst k w by (simp_all add: List.map_filter_simps)
  with paths k(1) w(1) show ?thesis
    by simp
qed

text \<open>
  The claim as stated fails on scenario B of the specification, in both providers: after
  the dismissal of the pairing dialog the promise of the request is not rejected.
\<close>

theorem pairing_dismissal_does_not_reject:
  "k_wcUri (k_run (k_pairing 0 ''wc:abc123'') k_mounted) = ''wc:abc123''
   \<and> promiseState (k_settled (k_run (k_pairing 0 ''wc:abc123'' @ [CloseQRModal]) k_mounted) 0)
       = Pending
   \<and> w_wcUri (w_run (w_pairing ''walletconnect'' 0 ''wc:abc123'') w_mounted) = ''wc:abc123''
   \<and> promiseState (w_settled (w_run (w_pairing ''walletconnect'' 0 ''wc:abc123'' @
         [CloseWalletQRModal]) w_mounted) 0) = Pending"
  by (simp add: k_mounted_defs chan_defs k_defs w_mounted_defs w_defs)

section \<open>No extension\<close>




section \<open>The stored preference\<close>

text \<open>
  Claim C6, as amended. With nothing cached and a preference stored, a request does not
  open the selection dialog and registers no listener when the preference is the
  extension (\<open>getKeplr\<close>), when it is the remote method and a new connector reports that it
  is connected (\<open>getKeplr\<close>), and when it is the id of any wallet of the list, the remote
  one included (\<open>getWallet\<close>); the cache and \<open>connectionType\<close> are set and the promise is
  resolved with what the probe, the connector or the resolver gave. With the remote
  preference and a connector that is not connected, \<open>getKeplr\<close> opens the selection dialog
  and the promise stays pending.
\<close>

theorem preference_skips_selection:
  fixes v :: "keplr option" and x :: "wallet option"
  assumes ks: "k_idle s" and wt: "w_idle t" and wi: "wi \<in> set (w_walletInfoList t)"
  shows
    "k_isModalOpen (k_run [SetDefaultConnectionType (Some Extension), GetKeplr] s) = k_isModalOpen s
   \<and> k_eventListener (k_run [SetDefaultConnectionType (Some Extension), GetKeplr] s) = []
   \<and> k_probes (k_run [SetDefaultConnectionType (Some Extension), GetKeplr] s)
       = [Then_default (k_nextRid s)]
   \<and> k_isModalOpen (k_run [SetDefaultConnectionType (Some Extension), GetKeplr, ProbeSettles v] s)
       = k_isModalOpen s
   \<and> k_lastUsedKeplr (k_run [SetDefaultConnectionType (Some Extension), GetKeplr, ProbeSettles v] s)
       = v
   \<and> k_connectionType (k_run [SetDefaultConnectionType (Some Extension), GetKeplr, ProbeSettles v] s)
       = Some Extension
   \<and> k_settled (k_run [SetDefaultConnectionType (Some Extension), GetKeplr, ProbeSettles v] s)
       (k_nextRid s) = [Resolve v]
   \<and> k_isModalOpen (k_run [SetDefaultConnectionType (Some WalletConnect), StoredSession True,
         GetKeplr] s) = k_isModalOpen s
   \<and> k_eventListener (k_run [SetDefaultConnectionType (Some WalletConnect), StoredSession True,
         GetKeplr] s) = []
   \<and> k_lastUsedKeplr (k_run [SetDefaultConnectionType (Some WalletConnect), StoredSession True,
         GetKeplr] s) = Some (KeplrWalletConnectV1 (k_nextCid s))
   \<and> k_connectionType (k_run [SetDefaultConnectionType (Some WalletConnect), StoredSession True,
         GetKeplr] s) = Some WalletConnect
   \<and> k_settled (k_run [SetDefaultConnectionType (Some WalletConnect), StoredSession True,
         GetKeplr] s) (k_nextRid s) = [Resolve (Some (KeplrWalletConnectV1 (k_nextCid s)))]
   \<and> k_isModalOpen (k_run [SetDefaultConnectionType (Some WalletConnect), StoredSession False,
         GetKeplr] s)
   \<and> k_eventListener (k_run [SetDefaultConnectionType (Some WalletConnect), StoredSession False,
         GetKeplr] s)
       = [(''modal_close'', K_modal_close (k_nextRid s)),
          (''select_extension'', K_select_extension (k_nextRid s)),
          (''select_wallet_connect'', K_select_wallet_connect (k_nextRid s))]
   \<and> promiseState (k_settled (k_run [SetDefaultConnectionType (Some WalletConnect),
         StoredSession False, GetKeplr] s) (k_nextRid s)) = Pending
   \<and> w_isModalOpen (w_run [SetDefaultWalletType (Some (wi_id wi)), GetWallet] t) = w_isModalOpen t
   \<and> w_eventListener (w_run [SetDefaultWalletType (Some (wi_id wi)), GetWallet] t) = []
   \<and> w_pending (w_run [SetDefaultWalletType (Some (wi_id wi)), GetWallet] t)
       = [ResolveWallet wi (w_nextRid t) False]
   \<and> w_isModalOpen (w_run [SetDefaultWalletType (Some (wi_id wi)), GetWallet,
         WalletSettles 0 (Resolve x)] t) = w_isModalOpen t
   \<and> w_lastUsedWallet (w_run [SetDefaultWalletType (Some (wi_id wi)), GetWallet,
         WalletSettles 0 (Resolve x)] t) = x
   \<and> w_connectionType (w_run [SetDefaultWalletType (Some (wi_id wi)), GetWallet,
         WalletSettles 0 (Resolve x)] t) = Some (wi_id wi)
   \<and> w_settled (w_run [SetDefaultWalletType (Some (wi_id wi)), GetWallet,
         WalletSettles 0 (Resolve x)] t) (w_nextRid t) = [Resolve x]"
proof -
  note ids = w_id_facts [OF wt wi]
  note k = k_idleD [OF ks]
  note w = w_idleD [OF wt]
  show ?thesis
    by (intro conjI) (simp_all add: k chan_defs k_defs w w_defs ids wi)
qed

theorem preference_mounted:
  "k_isModalOpen (k_run [SetDefaultConnectionType (Some Extension), GetKeplr,
      ProbeSettles (Some (WindowKeplr 7))] k_mounted) = False
   \<and> k_lastUsedKeplr (k_run [SetDefaultConnectionType (Some Extension), GetKeplr,
      ProbeSettles (Some (WindowKeplr 7))] k_mounted) = Some (WindowKeplr 7)
   \<and> w_isModalOpen (w_run [SetDefaultWalletType (Some ''walletconnect''), GetWallet,
      WalletSettles 0 (Resolve (Some 7))] w_mounted) = False
   \<and> w_connectionType (w_run [SetDefaultWalletType (Some ''walletconnect''), GetWallet,
      WalletSettles 0 (Resolve (Some 7))] w_mounted) = Some ''walletconnect''"
  using preference_skips_selection
    [OF k_mounted_idle w_mounted_idle w_mounted_wallets(3), of "Some (WindowKeplr 7)" "Some 7"]
  by (simp add: mounted_ids k_mounted_defs w_mounted_defs)

text \<open>
  The claim as stated fails in \<open>GetKeplrProvider\<close> for the remote preference: with no
  connected session, \<open>getKeplr\<close> shows the selection dialog and resolves nothing.
\<close>

theorem walletconnect_preference_prompts:
  "k_isModalOpen (k_run [SetDefaultConnectionType (Some WalletConnect), GetKeplr] k_mounted)
   \<and> k_settled (k_run [SetDefaultConnectionType (Some WalletConnect), GetKeplr] k_mounted) 0 = []
   \<and> k_lastUsedKeplr (k_run [SetDefaultConnectionType (Some WalletConnect), GetKeplr] k_mounted)
       = None"
  by (simp add: k_mounted_defs chan_defs k_defs)

section \<open>Reusing a connected session\<close>







section \<open>The cached handle\<close>

text \<open>
  A request that finds a handle in the cache is resolved at once with it and changes
  nothing else. While the provider is quiet, nothing short of a call of
  \<open>clearLastUsedKeplr\<close> or \<open>clearLastUsedWallet\<close> changes the cache.
\<close>

lemma k_cached_step:
  assumes "k_window s" and "k_lastUsedKeplr s = Some k" and "k_quiet s"
    and "ev \<noteq> ClearLastUsedKeplr"
  shows "k_window (k_step ev s) \<and> k_lastUsedKeplr (k_step ev s) = Some k \<and> k_quiet (k_step ev s)"
  using assms
  by (cases ev)
    (simp_all add: k_quiet_def chan_defs getKeplr_def k_resolve_def k_emit_def k_probeSettles_def
      k_qrOpen_def k_qrClose_def k_connect_def k_setDefaultConnectionType_def
      split: option.splits qrHooks.splits)

lemma k_cached_run:
  assumes "ClearLastUsedKeplr \<notin> set es"
    and "k_window s" and "k_lastUsedKeplr s = Some k" and "k_quiet s"
  shows "k_window (k_run es s) \<and> k_lastUsedKeplr (k_run es s) = Some k \<and> k_quiet (k_run es s)"
  using assms
proof (induction es arbitrary: s)
  case Nil
  then show ?case by (simp add: k_run_def)
next
  case (Cons ev es)
  from Cons.prems have "ev \<noteq> ClearLastUsedKeplr" and rest: "ClearLastUsedKeplr \<notin> set es"
    by auto
  with Cons.prems have "k_window (k_step ev s)" "k_lastUsedKeplr (k_step ev s) = Some k"
    "k_quiet (k_step ev s)"
    using k_cached_step by blast+
  with Cons.IH [OF rest] have
    "k_window (k_run es (k_step ev s)) \<and> k_lastUsedKeplr (k_run es (k_step ev s)) = Some k \<and>
     k_quiet (k_run es (k_step ev s))"
    by blast
  then show ?case by (simp add: k_run_def)
qed

lemma w_cached_step:
  assumes "w_window t" and "w_lastUsedWallet t = Some w" and "w_quiet t"
    and "ev \<noteq> ClearLastUsedWallet"
  shows "w_window (w_step ev t) \<and> w_lastUsedWallet (w_step ev t) = Some w \<and> w_quiet (w_step ev t)"
  using assms
  by (cases ev)
    (simp_all add: w_quiet_def chan_defs getWallet_def w_resolve_def w_emit_def w_walletSettles_def
      w_qrOpen_def w_qrClose_def w_connect_def w_setDefaultConnectionType_def
      split: option.splits)

lemma w_cached_run:
  assumes "ClearLastUsedWallet \<notin> set es"
    and "w_window t" and "w_lastUsedWallet t = Some w" and "w_quiet t"
  shows "w_window (w_run es t) \<and> w_lastUsedWallet (w_run es t) = Some w \<and> w_quiet (w_run es t)"
  using assms
proof (induction es arbitrary: t)
  case Nil
  then show ?case by (simp add: w_run_def)
next
  case (Cons ev es)
  from Cons.prems have "ev \<noteq> ClearLastUsedWallet" and rest: "ClearLastUsedWallet \<notin> set es"
    by auto
  with Cons.prems have "w_window (w_step ev t)" "w_lastUsedWallet (w_step ev t) = Some w"
    "w_quiet (w_step ev t)"
    using w_cached_step by blast+
  with Cons.IH [OF rest] have
    "w_window (w_run es (w_step ev t)) \<and> w_lastUsedWallet (w_run es (w_step ev t)) = Some w \<and>
     w_quiet (w_run es (w_step ev t))"
    by blast
  then show ?case by (simp add: w_run_def)
qed

lemma getKeplr_cached:
  assumes "k_window s" and "k_lastUsedKeplr s = Some k"
  shows "getKeplr s =
           s\<lparr>k_settled := (k_settled s)(k_nextRid s := [Resolve (Some k)]),
             k_nextRid := Suc (k_nextRid s)\<rparr>"
  using assms by (simp add: getKeplr_def k_resolve_def Let_def)

lemma getWallet_cached:
  assumes "w_window t" and "w_lastUsedWallet t = Some w"
  shows "getWallet t =
           t\<lparr>w_settled := (w_settled t)(w_nextRid t := [Resolve (Some w)]),
             w_nextRid := Suc (w_nextRid t)\<rparr>"
  using assms by (simp add: getWallet_def w_resolve_def Let_def)

text \<open>
  Claim C5 fails in \<open>GetKeplrProvider\<close>. The listener of \<open>select_wallet_connect\<close>
  leaves the selection dialog shown until the connector issues the pairing URI (only the
  \<open>open\<close> hook hides it, line 173), so the user can still pick the extension. The request
  is then resolved with the extension's handle, which is cached, and \<open>cleanUp\<close> runs; its
  \<open>eventListener.off("connect")\<close> does not reach the handler registered with
  \<open>connector.on("connect", ...)\<close>, which stays on the connector. The next request is
  resolved with the cached handle. When the connector reports the connection, the handler
  overwrites the cache, and the request after that is resolved with another handle,
  although \<open>clearLastUsedKeplr\<close> was never called. In \<open>GetWalletProvider\<close> the listener of
  a selection hides the selection dialog first (line 111), and a second selection cannot
  follow.
\<close>

theorem late_connect_overwrites_cache:
  "k_isModalOpen (k_run [GetKeplr, SelectWalletConnect] k_mounted)
   \<and> k_settled (k_run [GetKeplr, SelectWalletConnect, SelectExtension,
       ProbeSettles (Some (WindowKeplr 7))] k_mounted) 0 = [Resolve (Some (WindowKeplr 7))]
   \<and> k_eventListener (k_run [GetKeplr, SelectWalletConnect, SelectExtension,
       ProbeSettles (Some (WindowKeplr 7))] k_mounted) = []
   \<and> k_onConnect (k_run [GetKeplr, SelectWalletConnect, SelectExtension,
       ProbeSettles (Some (WindowKeplr 7))] k_mounted) = [(0, 0)]
   \<and> k_settled (k_run [GetKeplr, SelectWalletConnect, SelectExtension,
       ProbeSettles (Some (WindowKeplr 7)), GetKeplr] k_mounted) 1
     = [Resolve (Some (WindowKeplr 7))]
   \<and> k_lastUsedKeplr (k_run [GetKeplr, SelectWalletConnect, SelectExtension,
       ProbeSettles (Some (WindowKeplr 7)), GetKeplr, QrcodeModalOpen 0 ''wc:abc123'',
       QrcodeModalClose 0, ConnectEvent 0 None] k_mounted) = Some (KeplrWalletConnectV1 0)
   \<and> k_settled (k_run [GetKeplr, SelectWalletConnect, SelectExtension,
       ProbeSettles (Some (WindowKeplr 7)), GetKeplr, QrcodeModalOpen 0 ''wc:abc123'',
       QrcodeModalClose 0, ConnectEvent 0 None, GetKeplr] k_mounted) 2
     = [Resolve (Some (KeplrWalletConnectV1 0))]
   \<and> \<not> w_isModalOpen (w_run [GetWallet, SelectWallet ''walletconnect''] w_mounted)
   \<and> w_run [GetWallet, SelectWallet ''walletconnect'', SelectWallet ''extension''] w_mounted
     = w_run [GetWallet, SelectWallet ''walletconnect''] w_mounted"
  by (simp add: k_mounted_defs chan_defs k_defs w_mounted_defs w_defs)

section \<open>Listeners of a settled request\<close>



end
